theory Spec2Isabelle
  imports Main
begin

section \<open>amp-video: the adapter between a native video element and the host lifecycle\<close>

text \<open>
  A shallow embedding of \<^verbatim>\<open>extensions/amp-video/0.1/amp-video.js\<close>. The class
  \<^verbatim>\<open>AmpVideo\<close> becomes a record of its fields and of the parts of the DOM and of
  the host it reads and writes; every method becomes a function from the state to an
  outcome and the state the method leaves behind. A thrown exception is the outcome
  \<open>Inl e\<close>, paired with the state as it was at the throw (JavaScript does not roll the
  earlier writes back).
\<close>

subsection \<open>JavaScript values\<close>

text \<open>
  The value of a mutation: the host passes \<^verbatim>\<open>null | boolean | string | number\<close>.
  A key that is missing from the mutations object reads as \<^verbatim>\<open>undefined\<close>, which is
  \<open>None\<close> in the map.
\<close>

datatype jsval = JNull | JBool bool | JNum int | JStr string

fun truthy :: "jsval \<Rightarrow> bool" where
  "truthy JNull = False"
| "truthy (JBool b) = b"
| "truthy (JNum n) = (n \<noteq> 0)"
| "truthy (JStr x) = (x \<noteq> [])"

type_synonym mutations = "string \<rightharpoonup> jsval"

text \<open>\<^verbatim>\<open>if (mutations[k])\<close>: \<^verbatim>\<open>undefined\<close> is falsy.\<close>

definition mutated :: "mutations \<Rightarrow> string \<Rightarrow> bool" where
  "mutated m k = (case m k of None \<Rightarrow> False | Some v \<Rightarrow> truthy v)"

text \<open>
  \<^verbatim>\<open>getAttribute\<close> returns a string or \<^verbatim>\<open>null\<close>; \<^verbatim>\<open>null\<close> and the empty string
  are falsy.
\<close>

type_synonym attrs = "string \<rightharpoonup> string"

definition truthyAttr :: "string option \<Rightarrow> bool" where
  "truthyAttr a = (case a of None \<Rightarrow> False | Some u \<Rightarrow> u \<noteq> [])"

text \<open>\<^verbatim>\<open>a || b\<close> on attribute values, and the closing \<^verbatim>\<open>a || ''\<close>.\<close>

definition jsOr :: "string option \<Rightarrow> string option \<Rightarrow> string option" where
  "jsOr a b = (if truthyAttr a then a else b)"

definition orEmpty :: "string option \<Rightarrow> string" where
  "orEmpty a = (case a of None \<Rightarrow> [] | Some u \<Rightarrow> if u \<noteq> [] then u else [])"

subsection \<open>The DOM around the element\<close>

datatype node = Element string attrs "node list" | TextNode string

text \<open>
  A real child of the custom element, as \<^verbatim>\<open>getRealChildNodes()\<close> returns it, is either
  the native video that \<^verbatim>\<open>buildCallback\<close> created (\<^verbatim>\<open>this.video_ === child\<close>) or any
  other node. The host builds an element once, so there is one such video.
\<close>

datatype child = TheVideo | Other node

text \<open>
  A child node of the custom element in the DOM is a real child or a node that the host
  keeps out of \<^verbatim>\<open>getRealChildNodes()\<close> (a placeholder, a fallback, an overflow element,
  one of the host's internal nodes). Which one it is, is the host's decision and part of
  the state.
\<close>

datatype dom_child = Real child | Service node

datatype native_call = NativePlay | NativePause

record play_promise =
  rejects :: bool
  caught :: bool

record video =
  vattrs :: attrs
  vchildren :: "node list"
  hasPlay :: bool
  muted :: bool
  fillContent :: bool
  nativeCalls :: "native_call list"
  playPromises :: "play_promise list"

datatype video_event =
  RELOAD | LOAD | VISIBILITY bool | MUTED | UNMUTED | PLAYING | PAUSE | ENDED

datatype artwork_entry = Artwork (src: string)

record metadata =
  title :: string
  artist :: string
  album :: string
  artwork :: "artwork_entry list"

datatype error =
  UserAssertion "string option"
| DevAssertion
| TypeError

text \<open>
  The component: the fields of the class (\<^verbatim>\<open>video_\<close>, \<^verbatim>\<open>muted_\<close> and
  \<^verbatim>\<open>metadata_\<close>, here \<open>this_video\<close>, \<open>this_muted\<close> and \<open>this_metadata\<close>, since an
  Isabelle name cannot end in an underscore; for the same reason the methods
  \<^verbatim>\<open>getVideoSource_\<close> and \<^verbatim>\<open>isVideoSupported_\<close> lose theirs), the
  custom element it wraps (its attributes and its child nodes, in document order),
  and what the host records of its calls: the custom events dispatched, the URLs
  preconnected, the fallback toggle, the console, the registration with the video
  manager. \<open>development\<close> is \<^verbatim>\<open>getMode().development\<close>; \<open>platformPlay\<close> says whether
  a video element created in this document has a \<^verbatim>\<open>play\<close> method.
\<close>

record amp_video =
  attributes :: attrs
  childNodes :: "dom_child list"
  this_video :: "video option"
  this_muted :: bool
  this_metadata :: metadata
  handlersInstalled :: bool
  dispatched :: "video_event list"
  preconnected :: "(string \<times> bool option) list"
  fallbackOn :: bool
  consoleErrors :: "string list"
  registered :: bool
  development :: bool
  platformPlay :: bool

subsection \<open>Constants\<close>

definition ATTRS_TO_PROPAGATE_ON_BUILD :: "string list" where
  "ATTRS_TO_PROPAGATE_ON_BUILD =
     [''aria-describedby'', ''aria-label'', ''aria-labelledby'', ''controls'',
      ''crossorigin'', ''poster'', ''controlsList'']"

definition ATTRS_TO_PROPAGATE_ON_LAYOUT :: "string list" where
  "ATTRS_TO_PROPAGATE_ON_LAYOUT = [''src'', ''loop'', ''preload'']"

definition ATTRS_TO_PROPAGATE :: "string list" where
  "ATTRS_TO_PROPAGATE = ATTRS_TO_PROPAGATE_ON_BUILD @ ATTRS_TO_PROPAGATE_ON_LAYOUT"

text \<open>
  Modelled from the spec: \<^verbatim>\<open>EMPTY_METADATA\<close> of \<^verbatim>\<open>src/mediasession-helper\<close> is not
  among the sources; the spec's metadata record (title, artist, album, artwork URL) with
  every field empty.
\<close>

definition EMPTY_METADATA :: metadata where
  "EMPTY_METADATA = \<lparr>title = [], artist = [], album = [], artwork = [Artwork []]\<rparr>"

subsection \<open>Host primitives\<close>

text \<open>
  Modelled from the spec: \<^verbatim>\<open>assertHttpsUrl\<close> of \<^verbatim>\<open>src/url\<close> is not among the
  sources. "Any non-secure source URL causes an assertion failure surfaced to the host":
  the assertion passes on a URL the host's validator \<open>secure\<close> accepts and fails on every
  other, a missing URL included. The validator itself is a parameter of every operation
  that asserts.
\<close>

definition assertHttpsUrl :: "(string \<Rightarrow> bool) \<Rightarrow> string option \<Rightarrow> error + string" where
  "assertHttpsUrl secure urlString =
     (case urlString of
        None \<Rightarrow> Inl (UserAssertion None)
      | Some u \<Rightarrow> if secure u then Inr u else Inl (UserAssertion (Some u)))"

text \<open>
  Modelled from the spec: \<^verbatim>\<open>BaseElement.propagateAttributes\<close> is not among the
  sources. "DOM attributes propagated from the custom element to the underlying native
  element": each listed attribute the custom element has is set on the target with the
  same value; one it does not have is removed from the target when
  \<^verbatim>\<open>opt_removeMissingAttrs\<close> is set, and left alone otherwise.
\<close>

fun propagateAttributes :: "string list \<Rightarrow> attrs \<Rightarrow> bool \<Rightarrow> attrs \<Rightarrow> attrs" where
  "propagateAttributes [] el removeMissing target = target"
| "propagateAttributes (a # as) el removeMissing target =
     propagateAttributes as el removeMissing
       (case el a of
          Some v \<Rightarrow> target(a \<mapsto> v)
        | None \<Rightarrow> if removeMissing then target(a := None) else target)"

text \<open>\<^verbatim>\<open>this.element.dispatchCustomEvent(evt)\<close>: the host's log of events, in order.\<close>

definition dispatchCustomEvent :: "video_event \<Rightarrow> amp_video \<Rightarrow> amp_video" where
  "dispatchCustomEvent evt s = s\<lparr>dispatched := dispatched s @ [evt]\<rparr>"

text \<open>
  Modelled from the spec: \<^verbatim>\<open>elementByTag\<close> of \<^verbatim>\<open>src/dom\<close> is not among the sources
  ("source resolution" is a delegation to a host primitive): the first descendant of the
  custom element with the given tag, in document order. Every child node counts, the
  ones the host keeps out of \<^verbatim>\<open>getRealChildNodes()\<close> too. The native video, once
  appended, is a descendant, and so are the nodes moved under it.
\<close>

fun subtree :: "node \<Rightarrow> (string \<times> attrs) list" where
  "subtree (Element t a ks) = (t, a) # concat (map subtree ks)"
| "subtree (TextNode x) = []"

definition descendants :: "amp_video \<Rightarrow> (string \<times> attrs) list" where
  "descendants s =
     concat (map (\<lambda>c. case c of
                Service n \<Rightarrow> subtree n
              | Real (Other n) \<Rightarrow> subtree n
              | Real TheVideo \<Rightarrow>
                  (case this_video s of
                     None \<Rightarrow> []
                   | Some v \<Rightarrow> (''video'', vattrs v) # concat (map subtree (vchildren v))))
             (childNodes s))"

definition elementByTag :: "amp_video \<Rightarrow> string \<Rightarrow> (string \<times> attrs) option" where
  "elementByTag s tag = find (\<lambda>e. fst e = tag) (descendants s)"

text \<open>
  Modelled from the spec: \<^verbatim>\<open>BaseElement.getRealChildNodes\<close> is not among the sources.
  It returns, as an array of its own, the child nodes of the custom element that are real
  children, in document order.
\<close>

fun realChildren :: "dom_child list \<Rightarrow> child list" where
  "realChildren [] = []"
| "realChildren (Real c # ds) = c # realChildren ds"
| "realChildren (Service n # ds) = realChildren ds"

definition getRealChildNodes :: "amp_video \<Rightarrow> child list" where
  "getRealChildNodes s = realChildren (childNodes s)"

subsection \<open>The class\<close>

text \<open>The constructor: no video yet, not muted, the empty metadata.\<close>

definition constructor :: "attrs \<Rightarrow> dom_child list \<Rightarrow> bool \<Rightarrow> bool \<Rightarrow> amp_video" where
  "constructor elAttrs elChildren dev canPlay =
     \<lparr>attributes = elAttrs, childNodes = elChildren, this_video = None, this_muted = False,
      this_metadata = EMPTY_METADATA, handlersInstalled = False, dispatched = [],
      preconnected = [], fallbackOn = False, consoleErrors = [], registered = False,
      development = dev, platformPlay = canPlay\<rparr>"

definition getVideoSource :: "amp_video \<Rightarrow> string option" where
  "getVideoSource s =
     (let videoSrc = attributes s ''src'' in
      if \<not> truthyAttr videoSrc then
        (case elementByTag s ''source'' of
           Some source \<Rightarrow> snd source ''src''
         | None \<Rightarrow> videoSrc)
      else videoSrc)"

definition preconnectCallback ::
  "(string \<Rightarrow> bool) \<Rightarrow> bool option \<Rightarrow> amp_video \<Rightarrow> (error + unit) \<times> amp_video" where
  "preconnectCallback secure opt_onLayout s =
     (let videoSrc = getVideoSource s in
      if truthyAttr videoSrc then
        (case assertHttpsUrl secure videoSrc of
           Inl e \<Rightarrow> (Inl e, s)
         | Inr u \<Rightarrow> (Inr (), s\<lparr>preconnected := preconnected s @ [(u, opt_onLayout)]\<rparr>))
      else (Inr (), s))"

text \<open>
  \<^verbatim>\<open>createElement('video')\<close>: a fresh element with no attribute and no child, not
  muted; whether it can play is the platform's.
\<close>

definition createVideo :: "bool \<Rightarrow> video" where
  "createVideo canPlay =
     \<lparr>vattrs = Map.empty, vchildren = [], hasPlay = canPlay, muted = False,
      fillContent = False, nativeCalls = [], playPromises = []\<rparr>"

definition deriveArtwork :: "attrs \<Rightarrow> artwork_entry list" where
  "deriveArtwork el = [Artwork (orEmpty (jsOr (el ''artwork'') (el ''poster'')))]"

definition buildCallback :: "amp_video \<Rightarrow> (error + unit) \<times> amp_video" where
  \<open>buildCallback s =
     (let v0 = createVideo (platformPlay s);
          poster = attributes s ''poster'';
          errs = (if \<not> truthyAttr poster \<and> development s
                  then consoleErrors s @ [''No "poster" attribute has been provided for amp-video.'']
                  else consoleErrors s);
          v1 = v0\<lparr>vattrs := (vattrs v0)(''playsinline'' \<mapsto> [])\<rparr>;
          v2 = v1\<lparr>vattrs := (vattrs v1)(''webkit-playsinline'' \<mapsto> [])\<rparr>;
          v3 = v2\<lparr>vattrs := (vattrs v2)(''preload'' \<mapsto> ''none'')\<rparr>;
          v4 = v3\<lparr>vattrs := propagateAttributes ATTRS_TO_PROPAGATE_ON_BUILD
                                (attributes s) True (vattrs v3)\<rparr>;
          v5 = v4\<lparr>fillContent := True\<rparr>
      in (Inr (),
          s\<lparr>this_video := Some v5,
            consoleErrors := errs,
            handlersInstalled := True,
            childNodes := childNodes s @ [Real TheVideo],
            this_metadata := \<lparr>title = orEmpty (attributes s ''title''),
                           artist = orEmpty (attributes s ''artist''),
                           album = orEmpty (attributes s ''album''),
                           artwork = deriveArtwork (attributes s)\<rparr>,
            registered := True\<rparr>))\<close>

definition getMetadata :: "amp_video \<Rightarrow> metadata" where
  "getMetadata s = this_metadata s"

text \<open>
  \<^verbatim>\<open>this.propagateAttributes(attrs, this.video_, true)\<close>: the target is the native
  video. Every call in the source comes after a check that \<^verbatim>\<open>this.video_\<close> is set.
\<close>

definition propagateToVideo :: "string list \<Rightarrow> amp_video \<Rightarrow> amp_video" where
  "propagateToVideo as s =
     (case this_video s of
        None \<Rightarrow> s
      | Some v \<Rightarrow>
          s\<lparr>this_video :=
              Some (v\<lparr>vattrs := propagateAttributes as (attributes s) True (vattrs v)\<rparr>)\<rparr>)"

definition rederiveMetadata :: "mutations \<Rightarrow> attrs \<Rightarrow> metadata \<Rightarrow> metadata" where
  "rederiveMetadata m el md =
     (let md1 = (if mutated m ''artwork'' \<or> mutated m ''poster''
                 then md\<lparr>artwork := deriveArtwork el\<rparr> else md);
          md2 = (if mutated m ''album'' then md1\<lparr>album := orEmpty (el ''album'')\<rparr> else md1);
          md3 = (if mutated m ''title'' then md2\<lparr>title := orEmpty (el ''title'')\<rparr> else md2);
          md4 = (if mutated m ''artist'' then md3\<lparr>artist := orEmpty (el ''artist'')\<rparr> else md3)
      in md4)"

definition mutatedAttributesCallback ::
  "(string \<Rightarrow> bool) \<Rightarrow> mutations \<Rightarrow> amp_video \<Rightarrow> (error + unit) \<times> amp_video" where
  "mutatedAttributesCallback secure m s =
     (case this_video s of
        None \<Rightarrow> (Inr (), s)
      | Some v \<Rightarrow>
          (case (if mutated m ''src'' then assertHttpsUrl secure (attributes s ''src'')
                 else Inr []) of
             Inl e \<Rightarrow> (Inl e, s)
           | Inr _ \<Rightarrow>
               (let attrs = filter (\<lambda>value. m value \<noteq> None) ATTRS_TO_PROPAGATE;
                    s1 = propagateToVideo attrs s;
                    s2 = (if mutated m ''src'' then dispatchCustomEvent RELOAD s1 else s1)
                in (Inr (),
                    s2\<lparr>this_metadata :=
                         rederiveMetadata m (attributes s2) (this_metadata s2)\<rparr>))))"

definition viewportCallback :: "bool \<Rightarrow> amp_video \<Rightarrow> (error + unit) \<times> amp_video" where
  "viewportCallback visible s = (Inr (), dispatchCustomEvent (VISIBILITY visible) s)"

text \<open>\<^verbatim>\<open>isVideoSupported_\<close>: \<^verbatim>\<open>!!this.video_.play\<close>, a TypeError without a video.\<close>

definition isVideoSupported :: "amp_video \<Rightarrow> error + bool" where
  "isVideoSupported s =
     (case this_video s of None \<Rightarrow> Inl TypeError | Some v \<Rightarrow> Inr (hasPlay v))"

definition supportsPlatform :: "amp_video \<Rightarrow> error + bool" where
  "supportsPlatform s = isVideoSupported s"

definition toggleFallback :: "bool \<Rightarrow> amp_video \<Rightarrow> amp_video" where
  "toggleFallback state s = s\<lparr>fallbackOn := state\<rparr>"

text \<open>
  \<^verbatim>\<open>child.getAttribute && child.getAttribute('src')\<close>: a text node has no
  \<^verbatim>\<open>getAttribute\<close>.
\<close>

fun childSrc :: "node \<Rightarrow> string option" where
  "childSrc (Element t a ks) = a ''src''"
| "childSrc (TextNode x) = None"

text \<open>
  \<^verbatim>\<open>this.video_.appendChild(child)\<close> moves the child: it leaves the custom element
  and becomes the last child of the video.
\<close>

definition appendToVideo :: "node \<Rightarrow> amp_video \<Rightarrow> (error + unit) \<times> amp_video" where
  "appendToVideo n s =
     (case this_video s of
        None \<Rightarrow> (Inl TypeError, s)
      | Some v \<Rightarrow>
          (Inr (),
           s\<lparr>childNodes := remove1 (Real (Other n)) (childNodes s),
             this_video := Some (v\<lparr>vchildren := vchildren v @ [n]\<rparr>)\<rparr>))"

text \<open>
  The \<^verbatim>\<open>forEach\<close> of \<^verbatim>\<open>layoutCallback\<close> over the array that
  \<^verbatim>\<open>getRealChildNodes()\<close> returned: a throw in the callback ends the loop, and the
  children moved before it stay moved.
\<close>

fun forEachChild ::
  "(string \<Rightarrow> bool) \<Rightarrow> child list \<Rightarrow> amp_video \<Rightarrow> (error + unit) \<times> amp_video" where
  "forEachChild secure [] s = (Inr (), s)"
| "forEachChild secure (TheVideo # cs) s = forEachChild secure cs s"
| "forEachChild secure (Other n # cs) s =
     (case (if truthyAttr (childSrc n) then assertHttpsUrl secure (childSrc n) else Inr []) of
        Inl e \<Rightarrow> (Inl e, s)
      | Inr _ \<Rightarrow>
          (case appendToVideo n s of
             (Inl e, s') \<Rightarrow> (Inl e, s')
           | (Inr _, s') \<Rightarrow> forEachChild secure cs s'))"

text \<open>
  The promise a callback returns. \<^verbatim>\<open>Promise.resolve()\<close> is \<open>Resolved\<close>.
  Modelled from the spec: \<^verbatim>\<open>BaseElement.loadPromise\<close> is not among the sources; it
  is the "one-shot ready signal awaited before announcing load completion".
  \<^verbatim>\<open>loadPromise(video).then(() => dispatch(evt))\<close> is \<open>AwaitLoad evt\<close>: pending
  until the signal, which runs the continuation and only then resolves the promise.
\<close>

datatype promise = Resolved | AwaitLoad video_event

definition loadSignal :: "promise \<Rightarrow> amp_video \<Rightarrow> promise \<times> amp_video" where
  "loadSignal p s =
     (case p of
        Resolved \<Rightarrow> (Resolved, s)
      | AwaitLoad evt \<Rightarrow> (Resolved, dispatchCustomEvent evt s))"

definition layoutCallback ::
  "(string \<Rightarrow> bool) \<Rightarrow> amp_video \<Rightarrow> (error + promise) \<times> amp_video" where
  "layoutCallback secure s =
     (case this_video s of
        None \<Rightarrow> (Inl DevAssertion, s)
      | Some v \<Rightarrow>
          (case isVideoSupported s of
             Inl e \<Rightarrow> (Inl e, s)
           | Inr supported \<Rightarrow>
               if \<not> supported then (Inr Resolved, toggleFallback True s)
               else
                 (case (if truthyAttr (attributes s ''src'')
                        then assertHttpsUrl secure (attributes s ''src'') else Inr []) of
                    Inl e \<Rightarrow> (Inl e, s)
                  | Inr _ \<Rightarrow>
                      (let s1 = propagateToVideo ATTRS_TO_PROPAGATE_ON_LAYOUT s in
                       case forEachChild secure (getRealChildNodes s1) s1 of
                         (Inl e, s2) \<Rightarrow> (Inl e, s2)
                       | (Inr _, s2) \<Rightarrow> (Inr (AwaitLoad LOAD), s2)))))"

text \<open>The listeners that \<^verbatim>\<open>installEventHandlers_\<close> puts on the native video.\<close>

definition volumechangeHandler :: "amp_video \<Rightarrow> (error + unit) \<times> amp_video" where
  "volumechangeHandler s =
     (case this_video s of
        None \<Rightarrow> (Inl TypeError, s)
      | Some v \<Rightarrow>
          if this_muted s \<noteq> muted v then
            (let s1 = s\<lparr>this_muted := muted v\<rparr>;
                 evt = (if this_muted s1 then MUTED else UNMUTED)
             in (Inr (), dispatchCustomEvent evt s1))
          else (Inr (), s))"

definition endedHandler :: "amp_video \<Rightarrow> (error + unit) \<times> amp_video" where
  "endedHandler s = (Inr (), dispatchCustomEvent PAUSE s)"

definition nativePause :: "video \<Rightarrow> video" where
  "nativePause v = v\<lparr>nativeCalls := nativeCalls v @ [NativePause]\<rparr>"

definition pauseCallback :: "amp_video \<Rightarrow> (error + unit) \<times> amp_video" where
  "pauseCallback s =
     (case this_video s of
        None \<Rightarrow> (Inr (), s)
      | Some v \<Rightarrow> (Inr (), s\<lparr>this_video := Some (nativePause v)\<rparr>))"

text \<open>
  What the native \<^verbatim>\<open>play()\<close> hands back: nothing (older browsers) or a promise that
  is fulfilled or rejected later. A rejected promise that nobody caught is what the host
  reports as an unhandled rejection.
\<close>

datatype native_play = ReturnsUndefined | ReturnsPromise bool

definition unhandledRejections :: "amp_video \<Rightarrow> play_promise list" where
  "unhandledRejections s =
     (case this_video s of
        None \<Rightarrow> []
      | Some v \<Rightarrow> filter (\<lambda>p. rejects p \<and> \<not> caught p) (playPromises v))"

definition play :: "native_play \<Rightarrow> bool \<Rightarrow> amp_video \<Rightarrow> (error + unit) \<times> amp_video" where
  "play native unusedIsAutoplay s =
     (case this_video s of
        None \<Rightarrow> (Inl TypeError, s)
      | Some v \<Rightarrow>
          if \<not> hasPlay v then (Inl TypeError, s)
          else
            (let v1 = v\<lparr>nativeCalls := nativeCalls v @ [NativePlay]\<rparr> in
             case native of
               ReturnsUndefined \<Rightarrow> (Inr (), s\<lparr>this_video := Some v1\<rparr>)
             | ReturnsPromise r \<Rightarrow>
                 (let ret = \<lparr>rejects = r, caught = False\<rparr>;
                      ret' = ret\<lparr>caught := True\<rparr>
                  in (Inr (),
                      s\<lparr>this_video :=
                          Some (v1\<lparr>playPromises := playPromises v1 @ [ret']\<rparr>)\<rparr>))))"

definition pause :: "amp_video \<Rightarrow> (error + unit) \<times> amp_video" where
  "pause s =
     (case this_video s of
        None \<Rightarrow> (Inl TypeError, s)
      | Some v \<Rightarrow> (Inr (), s\<lparr>this_video := Some (nativePause v)\<rparr>))"

definition mute :: "amp_video \<Rightarrow> (error + unit) \<times> amp_video" where
  "mute s =
     (case this_video s of
        None \<Rightarrow> (Inl TypeError, s)
      | Some v \<Rightarrow> (Inr (), s\<lparr>this_video := Some (v\<lparr>muted := True\<rparr>)\<rparr>))"

definition unmute :: "amp_video \<Rightarrow> (error + unit) \<times> amp_video" where
  "unmute s =
     (case this_video s of
        None \<Rightarrow> (Inl TypeError, s)
      | Some v \<Rightarrow> (Inr (), s\<lparr>this_video := Some (v\<lparr>muted := False\<rparr>)\<rparr>))"

subsection \<open>Observations used in the statements\<close>

text \<open>
  An attribute of the native video as a caller sees it: \<open>None\<close> when there is no native
  video yet, \<open>Some None\<close> when the video lacks the attribute.
\<close>

definition nativeAttr :: "amp_video \<Rightarrow> string \<Rightarrow> string option option" where
  "nativeAttr s a = map_option (\<lambda>v. vattrs v a) (this_video s)"

text \<open>
  The nodes among a run of real children that the loop of \<^verbatim>\<open>layoutCallback\<close> hands
  to \<^verbatim>\<open>appendChild\<close>: all of them but the native video.
\<close>

fun movedNodes :: "child list \<Rightarrow> node list" where
  "movedNodes [] = []"
| "movedNodes (TheVideo # cs) = movedNodes cs"
| "movedNodes (Other n # cs) = n # movedNodes cs"

text \<open>The value of an attribute, the empty string when the attribute is absent.\<close>

definition attrOrEmpty :: "attrs \<Rightarrow> string \<Rightarrow> string" where
  "attrOrEmpty el k = (case el k of None \<Rightarrow> [] | Some x \<Rightarrow> x)"

subsection \<open>Concrete elements\<close>

text \<open>
  Modelled from the spec: the URL validator of \<^verbatim>\<open>src/url\<close> is not among the sources.
  Every theorem below holds for any validator; at concrete inputs "a secure (https) URL"
  is one that starts with \<^verbatim>\<open>https://\<close>.
\<close>

definition httpsOnly :: "string \<Rightarrow> bool" where
  "httpsOnly u = (take 8 u = ''https://'')"

text \<open>
  What the host does to the custom element before it reports a mutation:
  \<^verbatim>\<open>element.setAttribute\<close> and \<^verbatim>\<open>element.removeAttribute\<close>.
\<close>

definition setAttribute :: "string \<Rightarrow> string \<Rightarrow> amp_video \<Rightarrow> amp_video" where
  "setAttribute k x s = s\<lparr>attributes := (attributes s)(k \<mapsto> x)\<rparr>"

definition removeAttribute :: "string \<Rightarrow> amp_video \<Rightarrow> amp_video" where
  "removeAttribute k s = s\<lparr>attributes := (attributes s)(k := None)\<rparr>"

definition built :: "amp_video \<Rightarrow> amp_video" where
  "built s = snd (buildCallback s)"

definition exInsecureUrl :: string where
  "exInsecureUrl = ''http://cdn.example/a.mp4''"

definition exSecureUrl :: string where
  "exSecureUrl = ''https://cdn.example/b.mp4''"

text \<open>
  An element whose own source and whose \<^verbatim>\<open><source>\<close> child are served over http, on a
  platform that can or cannot play video.
\<close>

definition exInsecure :: "bool \<Rightarrow> amp_video" where
  "exInsecure canPlay =
     constructor
       [''src'' \<mapsto> exInsecureUrl, ''title'' \<mapsto> ''Old'',
        ''poster'' \<mapsto> ''https://cdn.example/p.png'', ''autoplay'' \<mapsto> []]
       [Real (Other (Element ''source'' [''src'' \<mapsto> exInsecureUrl] []))]
       False canPlay"

text \<open>The same element served over https, with a text node beside the source.\<close>

definition exSecure :: amp_video where
  "exSecure =
     constructor
       [''src'' \<mapsto> ''https://cdn.example/a.mp4'', ''title'' \<mapsto> ''Old'',
        ''poster'' \<mapsto> ''https://cdn.example/p.png'', ''autoplay'' \<mapsto> []]
       [Real (Other (Element ''source'' [''src'' \<mapsto> ''https://cdn.example/a.webm''] [])),
        Real (Other (TextNode ''no video''))]
       False True"

definition exLaidOut :: "(error + promise) \<times> amp_video" where
  "exLaidOut = layoutCallback httpsOnly (built exSecure)"

text \<open>The built element after the host has pointed it at another https source.\<close>

definition exResourced :: amp_video where
  "exResourced = setAttribute ''src'' exSecureUrl (built exSecure)"

text \<open>The built element after the host has removed an attribute.\<close>

definition exUntitled :: amp_video where
  "exUntitled = removeAttribute ''title'' (built exSecure)"

definition exUnsourced :: amp_video where
  "exUnsourced = removeAttribute ''src'' (built exSecure)"

text \<open>The built element after \<^verbatim>\<open>mute()\<close>, before the handler has seen the change.\<close>

definition exMuted :: amp_video where
  "exMuted = snd (mute (built exSecure))"

definition exRetitled :: amp_video where
  "exRetitled = setAttribute ''title'' ''New'' (built exSecure)"

text \<open>
  An element served over https that loops, with a fallback, a source served over https and
  two tracks served over http.
\<close>

definition exInsecureTrack :: string where
  "exInsecureTrack = ''http://cdn.example/2.vtt''"

definition exSource1 :: node where
  "exSource1 = Element ''source'' [''src'' \<mapsto> ''https://cdn.example/1.webm''] []"

definition exTrack2 :: node where
  "exTrack2 = Element ''track'' [''src'' \<mapsto> exInsecureTrack] []"

definition exTrack3 :: node where
  "exTrack3 = Element ''track'' [''src'' \<mapsto> ''http://cdn.example/3.vtt''] []"

definition exMixed :: amp_video where
  "exMixed =
     constructor
       [''src'' \<mapsto> ''https://cdn.example/a.mp4'', ''loop'' \<mapsto> []]
       [Service (Element ''div'' [''fallback'' \<mapsto> []] [TextNode ''no video'']),
        Real (Other exSource1), Real (Other exTrack2), Real (Other exTrack3)]
       False True"

text \<open>
  An element without a \<^verbatim>\<open>src\<close> whose only \<^verbatim>\<open><source>\<close>, served over http, sits
  inside its fallback.
\<close>

definition exNested :: amp_video where
  "exNested =
     constructor Map.empty
       [Service (Element ''div'' [''fallback'' \<mapsto> []]
                   [Element ''source'' [''src'' \<mapsto> exInsecureUrl] []])]
       False True"


section \<open>Helper lemmas\<close>

subsection \<open>Attribute propagation\<close>

lemma propagateAttributes_apply:
  "propagateAttributes as el True target a = (if a \<in> set as then el a else target a)"
  by (induction as arbitrary: target) (auto split: option.splits)

lemma autoplay_not_propagated:
  "''autoplay'' \<notin> set ATTRS_TO_PROPAGATE_ON_BUILD"
  "''autoplay'' \<notin> set ATTRS_TO_PROPAGATE_ON_LAYOUT"
  "''autoplay'' \<notin> set ATTRS_TO_PROPAGATE"
  by (simp_all add: ATTRS_TO_PROPAGATE_def ATTRS_TO_PROPAGATE_ON_BUILD_def
                    ATTRS_TO_PROPAGATE_ON_LAYOUT_def)

lemma src_propagated:
  "''src'' \<notin> set ATTRS_TO_PROPAGATE_ON_BUILD"
  "''src'' \<in> set ATTRS_TO_PROPAGATE_ON_LAYOUT"
  "''src'' \<in> set ATTRS_TO_PROPAGATE"
  by (simp_all add: ATTRS_TO_PROPAGATE_def ATTRS_TO_PROPAGATE_ON_BUILD_def
                    ATTRS_TO_PROPAGATE_ON_LAYOUT_def)

subsection \<open>The loop over the children\<close>

lemma realChildren_append: "realChildren (xs @ ys) = realChildren xs @ realChildren ys"
  by (induction xs rule: realChildren.induct) simp_all

lemma appendToVideo_frame:
  "appendToVideo n s = (r, s') \<Longrightarrow>
     dispatched s' = dispatched s \<and> attributes s' = attributes s \<and>
     map_option vattrs (this_video s') = map_option vattrs (this_video s)"
  by (auto simp: appendToVideo_def split: option.splits)

lemma appendToVideo_video:
  "this_video s \<noteq> None \<Longrightarrow> \<exists>s'. appendToVideo n s = (Inr (), s') \<and> this_video s' \<noteq> None"
  by (auto simp: appendToVideo_def split: option.splits)

lemma forEachChild_frame:
  "forEachChild secure cs s = (r, s') \<Longrightarrow>
     dispatched s' = dispatched s \<and> attributes s' = attributes s \<and>
     map_option vattrs (this_video s') = map_option vattrs (this_video s)"
proof (induction secure cs s arbitrary: r s' rule: forEachChild.induct)
  case (1 secure s)
  then show ?case by simp
next
  case (2 secure cs s)
  then show ?case by simp
next
  case (3 secure n cs s)
  let ?check = "if truthyAttr (childSrc n) then assertHttpsUrl secure (childSrc n) else Inr []"
  show ?case
  proof (cases ?check)
    case (Inl e)
    with 3(2) show ?thesis by simp
  next
    case chk: (Inr u)
    obtain r1 s1 where a: "appendToVideo n s = (r1, s1)" by (cases "appendToVideo n s")
    note f = appendToVideo_frame [OF a]
    show ?thesis
    proof (cases r1)
      case (Inl e)
      with 3(2) chk a f show ?thesis by simp
    next
      case (Inr x)
      with 3(2) chk a have "forEachChild secure cs s1 = (r, s')" by simp
      from 3(1) [OF chk a [symmetric] Inr this] f show ?thesis by simp
    qed
  qed
qed

lemma forEachChild_insecure:
  "this_video s \<noteq> None \<Longrightarrow> Other n \<in> set cs \<Longrightarrow> childSrc n = Some u \<Longrightarrow> u \<noteq> [] \<Longrightarrow>
   \<not> secure u \<Longrightarrow>
   \<exists>u' s'. \<not> secure u' \<and> forEachChild secure cs s = (Inl (UserAssertion (Some u')), s')"
proof (induction secure cs s rule: forEachChild.induct)
  case (1 secure s)
  then show ?case by simp
next
  case (2 secure cs s)
  then show ?case by simp
next
  case (3 secure k cs s)
  show ?case
  proof (cases "truthyAttr (childSrc k) \<and> (\<exists>w. childSrc k = Some w \<and> \<not> secure w)")
    case True
    then show ?thesis by (auto simp: assertHttpsUrl_def)
  next
    case False
    then have "\<exists>x. (if truthyAttr (childSrc k) then assertHttpsUrl secure (childSrc k)
                    else Inr []) = Inr x"
      by (auto simp: assertHttpsUrl_def truthyAttr_def split: option.splits)
    then obtain x where x: "(if truthyAttr (childSrc k) then assertHttpsUrl secure (childSrc k)
                             else Inr []) = Inr x" ..
    from False 3(4,5,6) have "k \<noteq> n" by (auto simp: truthyAttr_def)
    with 3(3) have mem: "Other n \<in> set cs" by simp
    from appendToVideo_video [OF 3(2), of k] obtain s1 where
      a: "appendToVideo k s = (Inr (), s1)" and v: "this_video s1 \<noteq> None" by blast
    from 3(1) [OF x a [symmetric] refl v mem 3(4,5,6)] x a show ?thesis by simp
  qed
qed

lemma forEachChild_first_insecure:
  "this_video s = Some v \<Longrightarrow>
   \<forall>k. Other k \<in> set pre \<longrightarrow> truthyAttr (childSrc k) \<longrightarrow> (\<exists>w. childSrc k = Some w \<and> secure w) \<Longrightarrow>
   childSrc n = Some u \<Longrightarrow> u \<noteq> [] \<Longrightarrow> \<not> secure u \<Longrightarrow>
   forEachChild secure (pre @ Other n # post) s =
     (Inl (UserAssertion (Some u)),
      s\<lparr>this_video := Some (v\<lparr>vchildren := vchildren v @ movedNodes pre\<rparr>),
        childNodes := fold (\<lambda>k. remove1 (Real (Other k))) (movedNodes pre) (childNodes s)\<rparr>)"
proof (induction pre arbitrary: s v)
  case Nil
  then show ?case by (simp add: truthyAttr_def assertHttpsUrl_def)
next
  case (Cons c pre)
  show ?case
  proof (cases c)
    case TheVideo
    with Cons.IH [OF Cons.prems(1) _ Cons.prems(3,4,5)] Cons.prems(2) show ?thesis by simp
  next
    case (Other k)
    from Cons.prems(2) Other
    have "\<exists>x. (if truthyAttr (childSrc k) then assertHttpsUrl secure (childSrc k)
               else Inr []) = Inr x"
      by (auto simp: assertHttpsUrl_def)
    then obtain x where x: "(if truthyAttr (childSrc k) then assertHttpsUrl secure (childSrc k)
                             else Inr []) = Inr x" ..
    let ?v1 = "v\<lparr>vchildren := vchildren v @ [k]\<rparr>"
    let ?s1 = "s\<lparr>childNodes := remove1 (Real (Other k)) (childNodes s),
                 this_video := Some ?v1\<rparr>"
    have a: "appendToVideo k s = (Inr (), ?s1)"
      using Cons.prems(1) by (simp add: appendToVideo_def)
    have v1: "this_video ?s1 = Some ?v1" by simp
    from Cons.prems(2) have rest: "\<forall>k. Other k \<in> set pre \<longrightarrow> truthyAttr (childSrc k) \<longrightarrow>
                                    (\<exists>w. childSrc k = Some w \<and> secure w)" by simp
    from Cons.IH [OF v1 rest Cons.prems(3,4,5)] x a Other show ?thesis by simp
  qed
qed

lemma forEachChild_ok:
  "this_video s \<noteq> None \<Longrightarrow>
   \<forall>n. Other n \<in> set cs \<longrightarrow> truthyAttr (childSrc n) \<longrightarrow> (\<exists>u. childSrc n = Some u \<and> secure u) \<Longrightarrow>
   \<exists>s'. forEachChild secure cs s = (Inr (), s')"
proof (induction secure cs s rule: forEachChild.induct)
  case (1 secure s)
  then show ?case by simp
next
  case (2 secure cs s)
  then show ?case by simp
next
  case (3 secure k cs s)
  from 3(3) have "\<exists>x. (if truthyAttr (childSrc k) then assertHttpsUrl secure (childSrc k)
                        else Inr []) = Inr x"
    by (auto simp: assertHttpsUrl_def)
  then obtain x where x: "(if truthyAttr (childSrc k) then assertHttpsUrl secure (childSrc k)
                           else Inr []) = Inr x" ..
  from appendToVideo_video [OF 3(2), of k] obtain s1 where
    a: "appendToVideo k s = (Inr (), s1)" and v: "this_video s1 \<noteq> None" by blast
  from 3(3) have rest: "\<forall>n. Other n \<in> set cs \<longrightarrow> truthyAttr (childSrc n) \<longrightarrow>
                         (\<exists>u. childSrc n = Some u \<and> secure u)" by simp
  from 3(1) [OF x a [symmetric] refl v rest] x a show ?case by simp
qed

subsection \<open>What the callbacks do to the native video\<close>

lemma buildCallback_nativeAttr:
  "nativeAttr (snd (buildCallback s)) a =
     Some (if a \<in> set ATTRS_TO_PROPAGATE_ON_BUILD then attributes s a
           else [''playsinline'' \<mapsto> [], ''webkit-playsinline'' \<mapsto> [], ''preload'' \<mapsto> ''none''] a)"
  by (simp add: nativeAttr_def buildCallback_def Let_def createVideo_def
                propagateAttributes_apply)

lemma layoutCallback_None:
  "this_video s = None \<Longrightarrow> layoutCallback secure s = (Inl DevAssertion, s)"
  by (simp add: layoutCallback_def)

lemma layoutCallback_vattrs:
  assumes v: "this_video s = Some v" and l: "layoutCallback secure s = (r, s')"
  shows "\<exists>v'. this_video s' = Some v' \<and>
          (vattrs v' = vattrs v \<or>
           vattrs v' =
             propagateAttributes ATTRS_TO_PROPAGATE_ON_LAYOUT (attributes s) True (vattrs v))"
proof -
  let ?s1 = "propagateToVideo ATTRS_TO_PROPAGATE_ON_LAYOUT s"
  obtain r2 s2 where f: "forEachChild secure (getRealChildNodes ?s1) ?s1 = (r2, s2)"
    by (cases "forEachChild secure (getRealChildNodes ?s1) ?s1")
  from forEachChild_frame [OF f] v
  have "map_option vattrs (this_video s2) =
        Some (propagateAttributes ATTRS_TO_PROPAGATE_ON_LAYOUT (attributes s) True (vattrs v))"
    by (simp add: propagateToVideo_def)
  then obtain v2 where v2: "this_video s2 = Some v2"
    "vattrs v2 = propagateAttributes ATTRS_TO_PROPAGATE_ON_LAYOUT (attributes s) True (vattrs v)"
    by auto
  from l have "s' = s \<or> s' = toggleFallback True s \<or> s' = s2"
    using f by (auto simp: layoutCallback_def isVideoSupported_def Let_def v
                     split: sum.splits if_splits)
  with v v2 show ?thesis by (auto simp: toggleFallback_def)
qed

lemma layoutCallback_dispatched:
  "layoutCallback secure s = (r, s') \<Longrightarrow> dispatched s' = dispatched s"
proof (cases "this_video s")
  case None
  assume "layoutCallback secure s = (r, s')"
  with None show ?thesis by (simp add: layoutCallback_None)
next
  case (Some v)
  assume l: "layoutCallback secure s = (r, s')"
  let ?s1 = "propagateToVideo ATTRS_TO_PROPAGATE_ON_LAYOUT s"
  obtain r2 s2 where f: "forEachChild secure (getRealChildNodes ?s1) ?s1 = (r2, s2)"
    by (cases "forEachChild secure (getRealChildNodes ?s1) ?s1")
  from forEachChild_frame [OF f] Some have d: "dispatched s2 = dispatched s"
    by (simp add: propagateToVideo_def)
  from l have "s' = s \<or> s' = toggleFallback True s \<or> s' = s2"
    using f by (auto simp: layoutCallback_def isVideoSupported_def Let_def Some
                     split: sum.splits if_splits)
  with d show ?thesis by (auto simp: toggleFallback_def)
qed

lemma layoutCallback_ok_state:
  assumes v: "this_video s = Some v" and h: "hasPlay v"
    and l: "layoutCallback secure s = (Inr p, s')"
  shows "p = AwaitLoad LOAD \<and> dispatched s' = dispatched s \<and>
         (\<exists>v'. this_video s' = Some v' \<and>
            vattrs v' =
              propagateAttributes ATTRS_TO_PROPAGATE_ON_LAYOUT (attributes s) True (vattrs v))"
proof -
  let ?s1 = "propagateToVideo ATTRS_TO_PROPAGATE_ON_LAYOUT s"
  obtain r2 s2 where f: "forEachChild secure (getRealChildNodes ?s1) ?s1 = (r2, s2)"
    by (cases "forEachChild secure (getRealChildNodes ?s1) ?s1")
  from forEachChild_frame [OF f] v
  have d: "dispatched s2 = dispatched s"
    and "map_option vattrs (this_video s2) =
        Some (propagateAttributes ATTRS_TO_PROPAGATE_ON_LAYOUT (attributes s) True (vattrs v))"
    by (simp_all add: propagateToVideo_def)
  then obtain v2 where v2: "this_video s2 = Some v2"
    "vattrs v2 = propagateAttributes ATTRS_TO_PROPAGATE_ON_LAYOUT (attributes s) True (vattrs v)"
    by auto
  from l h have "p = AwaitLoad LOAD \<and> s' = s2"
    using f by (auto simp: layoutCallback_def isVideoSupported_def Let_def v
                     split: sum.splits if_splits)
  with v2 d show ?thesis by simp
qed

lemma layoutCallback_ok:
  assumes "this_video s = Some v" and "hasPlay v"
    and "truthyAttr (attributes s ''src'') \<longrightarrow> (\<exists>u. attributes s ''src'' = Some u \<and> secure u)"
    and "\<forall>n. Other n \<in> set (getRealChildNodes s) \<longrightarrow> truthyAttr (childSrc n) \<longrightarrow>
             (\<exists>u. childSrc n = Some u \<and> secure u)"
  shows "fst (layoutCallback secure s) = Inr (AwaitLoad LOAD)"
proof -
  let ?s1 = "propagateToVideo ATTRS_TO_PROPAGATE_ON_LAYOUT s"
  from assms(1) have v1: "this_video ?s1 \<noteq> None" and c1: "getRealChildNodes ?s1 = getRealChildNodes s"
    by (simp_all add: propagateToVideo_def getRealChildNodes_def)
  from forEachChild_ok [where secure = secure, OF v1] assms(4) c1
  obtain s2 where f: "forEachChild secure (getRealChildNodes ?s1) ?s1 = (Inr (), s2)" by auto
  from assms(3) have "\<exists>x. (if truthyAttr (attributes s ''src'')
                 then assertHttpsUrl secure (attributes s ''src'') else Inr []) = Inr x"
    by (auto simp: assertHttpsUrl_def)
  with assms(1,2) f show ?thesis
    by (auto simp: layoutCallback_def isVideoSupported_def Let_def)
qed

lemma layoutCallback_outside:
  assumes a: "a \<notin> set ATTRS_TO_PROPAGATE_ON_LAYOUT"
  shows "nativeAttr (snd (layoutCallback secure s)) a = nativeAttr s a"
proof (cases "this_video s")
  case None
  then show ?thesis by (simp add: layoutCallback_None)
next
  case (Some v)
  obtain r s' where l: "layoutCallback secure s = (r, s')"
    by (cases "layoutCallback secure s")
  from layoutCallback_vattrs [OF Some l] Some l a show ?thesis
    by (auto simp: nativeAttr_def propagateAttributes_apply)
qed

lemma mutated_state:
  "this_video s = Some v \<Longrightarrow> mutatedAttributesCallback secure m s = (r, s') \<Longrightarrow>
   (\<exists>v'. this_video s' = Some v' \<and>
      vattrs v' =
        (if r = Inr () then
           propagateAttributes (filter (\<lambda>value. m value \<noteq> None) ATTRS_TO_PROPAGATE)
             (attributes s) True (vattrs v)
         else vattrs v)) \<and>
   dispatched s' = dispatched s @ (if r = Inr () \<and> mutated m ''src'' then [RELOAD] else []) \<and>
   this_metadata s' =
     (if r = Inr () then rederiveMetadata m (attributes s) (this_metadata s)
      else this_metadata s)"
  by (auto simp: mutatedAttributesCallback_def Let_def propagateToVideo_def
                 dispatchCustomEvent_def split: sum.splits if_splits)

lemma mutated_result:
  "this_video s = Some v \<Longrightarrow>
   fst (mutatedAttributesCallback secure m s) =
     (if mutated m ''src'' \<and> \<not> (\<exists>u. attributes s ''src'' = Some u \<and> secure u)
      then Inl (UserAssertion (attributes s ''src'')) else Inr ())"
  by (auto simp: mutatedAttributesCallback_def Let_def assertHttpsUrl_def
           split: option.splits)

lemma mutated_outside:
  assumes a: "a \<notin> set ATTRS_TO_PROPAGATE \<or> m a = None"
  shows "nativeAttr (snd (mutatedAttributesCallback secure m s)) a = nativeAttr s a"
proof (cases "this_video s")
  case None
  then show ?thesis by (simp add: mutatedAttributesCallback_def)
next
  case (Some v)
  obtain r s' where l: "mutatedAttributesCallback secure m s = (r, s')"
    by (cases "mutatedAttributesCallback secure m s")
  from mutated_state [OF Some l] Some l a show ?thesis
    by (auto simp: nativeAttr_def propagateAttributes_apply)
qed

subsection \<open>Metadata\<close>

lemma orEmpty_attr: "orEmpty (el k) = attrOrEmpty el k"
  by (simp add: orEmpty_def attrOrEmpty_def split: option.splits)

lemma deriveArtwork_eq:
  "deriveArtwork el =
     [Artwork (if attrOrEmpty el ''artwork'' \<noteq> [] then attrOrEmpty el ''artwork''
               else attrOrEmpty el ''poster'')]"
  by (simp add: deriveArtwork_def orEmpty_def jsOr_def truthyAttr_def attrOrEmpty_def
           split: option.splits)

lemma buildCallback_metadata:
  "this_metadata (snd (buildCallback s)) =
     \<lparr>title = attrOrEmpty (attributes s) ''title'',
      artist = attrOrEmpty (attributes s) ''artist'',
      album = attrOrEmpty (attributes s) ''album'',
      artwork = [Artwork (if attrOrEmpty (attributes s) ''artwork'' \<noteq> []
                          then attrOrEmpty (attributes s) ''artwork''
                          else attrOrEmpty (attributes s) ''poster'')]\<rparr>"
  by (simp add: buildCallback_def Let_def orEmpty_attr deriveArtwork_eq)

lemma rederiveMetadata_eq:
  "rederiveMetadata m el md =
     \<lparr>title = (if mutated m ''title'' then attrOrEmpty el ''title'' else title md),
      artist = (if mutated m ''artist'' then attrOrEmpty el ''artist'' else artist md),
      album = (if mutated m ''album'' then attrOrEmpty el ''album'' else album md),
      artwork = (if mutated m ''artwork'' \<or> mutated m ''poster''
                 then [Artwork (if attrOrEmpty el ''artwork'' \<noteq> [] then attrOrEmpty el ''artwork''
                                else attrOrEmpty el ''poster'')]
                 else artwork md)\<rparr>"
  by (simp add: rederiveMetadata_def Let_def orEmpty_attr deriveArtwork_eq)

subsection \<open>The concrete elements\<close>

lemma built_fields:
  "attributes (built s) = attributes s"
  "getRealChildNodes (built s) = getRealChildNodes s @ [TheVideo]"
  "dispatched (built s) = dispatched s"
  "this_muted (built s) = this_muted s"
  "map_option hasPlay (this_video (built s)) = Some (platformPlay s)"
  "map_option muted (this_video (built s)) = Some False"
  "map_option playPromises (this_video (built s)) = Some []"
  "this_video (built s) = Some (the (this_video (built s)))"
  "childNodes (built s) = childNodes s @ [Real TheVideo]"
  "map_option vchildren (this_video (built s)) = Some []"
  by (simp_all add: built_def buildCallback_def Let_def createVideo_def getRealChildNodes_def
        realChildren_append)

lemma ex_fields:
  "attributes (exInsecure c) =
     [''src'' \<mapsto> exInsecureUrl, ''title'' \<mapsto> ''Old'',
      ''poster'' \<mapsto> ''https://cdn.example/p.png'', ''autoplay'' \<mapsto> []]"
  "getRealChildNodes (exInsecure c) =
     [Other (Element ''source'' [''src'' \<mapsto> exInsecureUrl] [])]"
  "platformPlay (exInsecure c) = c"
  "this_video (exInsecure c) = None"
  "dispatched (exInsecure c) = []"
  "attributes exSecure =
     [''src'' \<mapsto> ''https://cdn.example/a.mp4'', ''title'' \<mapsto> ''Old'',
      ''poster'' \<mapsto> ''https://cdn.example/p.png'', ''autoplay'' \<mapsto> []]"
  "getRealChildNodes exSecure =
     [Other (Element ''source'' [''src'' \<mapsto> ''https://cdn.example/a.webm''] []),
      Other (TextNode ''no video'')]"
  "platformPlay exSecure = True"
  "this_video exSecure = None"
  "dispatched exSecure = []"
  "this_muted exSecure = False"
  by (simp_all add: exInsecure_def exSecure_def constructor_def getRealChildNodes_def)

lemma exMixed_fields:
  "attributes exMixed = [''src'' \<mapsto> ''https://cdn.example/a.mp4'', ''loop'' \<mapsto> []]"
  "childNodes exMixed =
     [Service (Element ''div'' [''fallback'' \<mapsto> []] [TextNode ''no video'']),
      Real (Other exSource1), Real (Other exTrack2), Real (Other exTrack3)]"
  "platformPlay exMixed = True"
  by (simp_all add: exMixed_def constructor_def)

lemma exNested_source: "getVideoSource exNested = Some exInsecureUrl"
  by (simp add: getVideoSource_def exNested_def constructor_def truthyAttr_def
        elementByTag_def descendants_def)

lemma ex_children:
  "childSrc exSource1 = Some ''https://cdn.example/1.webm''"
  "childSrc exTrack2 = Some exInsecureTrack"
  "\<not> httpsOnly exInsecureTrack" "exInsecureTrack \<noteq> []"
  by (simp_all add: exSource1_def exTrack2_def exInsecureTrack_def httpsOnly_def)

lemma ex_urls:
  "\<not> httpsOnly exInsecureUrl" "exInsecureUrl \<noteq> []" "httpsOnly exSecureUrl" "exSecureUrl \<noteq> []"
  by (simp_all add: httpsOnly_def exInsecureUrl_def exSecureUrl_def)

lemma host_edit_fields:
  "this_video (setAttribute k x s) = this_video s"
  "dispatched (setAttribute k x s) = dispatched s"
  "this_metadata (setAttribute k x s) = this_metadata s"
  "attributes (setAttribute k x s) = (attributes s)(k \<mapsto> x)"
  "this_video (removeAttribute k s) = this_video s"
  "dispatched (removeAttribute k s) = dispatched s"
  "this_metadata (removeAttribute k s) = this_metadata s"
  "attributes (removeAttribute k s) = (attributes s)(k := None)"
  by (simp_all add: setAttribute_def removeAttribute_def)

lemma exLaidOut_ok: "fst exLaidOut = Inr (AwaitLoad LOAD)"
  unfolding exLaidOut_def
proof (rule layoutCallback_ok)
  show "this_video (built exSecure) = Some (the (this_video (built exSecure)))"
    by (rule built_fields)
  show "hasPlay (the (this_video (built exSecure)))"
    using built_fields(5,8) [of exSecure] by (auto simp: ex_fields split: option.splits)
  show "truthyAttr (attributes (built exSecure) ''src'') \<longrightarrow>
        (\<exists>u. attributes (built exSecure) ''src'' = Some u \<and> httpsOnly u)"
    by (simp add: built_fields(1) ex_fields httpsOnly_def)
  show "\<forall>n. Other n \<in> set (getRealChildNodes (built exSecure)) \<longrightarrow> truthyAttr (childSrc n) \<longrightarrow>
             (\<exists>u. childSrc n = Some u \<and> httpsOnly u)"
    by (auto simp: built_fields(2) ex_fields httpsOnly_def truthyAttr_def)
qed

lemma exLaidOut_eq:
  "layoutCallback httpsOnly (built exSecure) = (Inr (AwaitLoad LOAD), snd exLaidOut)"
  using exLaidOut_ok by (simp add: exLaidOut_def prod_eq_iff)

lemma built_metadata:
  "getMetadata (built s) =
     \<lparr>title = attrOrEmpty (attributes s) ''title'',
      artist = attrOrEmpty (attributes s) ''artist'',
      album = attrOrEmpty (attributes s) ''album'',
      artwork = [Artwork (if attrOrEmpty (attributes s) ''artwork'' \<noteq> []
                          then attrOrEmpty (attributes s) ''artwork''
                          else attrOrEmpty (attributes s) ''poster'')]\<rparr>"
  by (simp add: getMetadata_def built_def buildCallback_metadata)

lemma exSecure_metadata:
  "getMetadata (built exSecure) =
     \<lparr>title = ''Old'', artist = [], album = [],
      artwork = [Artwork ''https://cdn.example/p.png'']\<rparr>"
  by (simp add: built_metadata ex_fields attrOrEmpty_def)

lemma ex_edited_video:
  "this_video exRetitled = Some (the (this_video (built exSecure)))"
  "this_video exUntitled = Some (the (this_video (built exSecure)))"
  "this_video exResourced = Some (the (this_video (built exSecure)))"
  "this_video exUnsourced = Some (the (this_video (built exSecure)))"
  using built_fields(8) [of exSecure]
  by (simp_all add: exRetitled_def exUntitled_def exResourced_def exUnsourced_def
        host_edit_fields)


section \<open>The claims\<close>

text \<open>
  C1, as the code has it. A source URL that fails the https assertion makes the operation
  throw the assertion failure in these cases: \<^verbatim>\<open>preconnectCallback\<close> on a non-empty
  resolved source; \<^verbatim>\<open>layoutCallback\<close>, once the native video exists and can play, on
  the element's non-empty \<^verbatim>\<open>src\<close> and on the non-empty \<^verbatim>\<open>src\<close> of a real child
  other than the native video; \<^verbatim>\<open>mutatedAttributesCallback\<close>, once the native video
  exists and the mutation of \<^verbatim>\<open>src\<close> carries a truthy value, on the element's
  \<^verbatim>\<open>src\<close>. A failure on the element's own source leaves the component as it was. When
  the element's own source passes, the failure on the children is that of the first
  offending child, and it leaves the component with the layout-time attributes propagated
  and with the children before the offending one moved under the native video, in order;
  the offending child and the ones after it stay where they were.
\<close>

theorem insecure_source_asserts:
  "(getVideoSource s0 = Some u0 \<and> u0 \<noteq> [] \<and> \<not> secure u0 \<longrightarrow>
      preconnectCallback secure onLayout s0 = (Inl (UserAssertion (Some u0)), s0)) \<and>
   (this_video s = Some v \<and> hasPlay v \<and> attributes s ''src'' = Some u \<and> u \<noteq> [] \<and> \<not> secure u \<longrightarrow>
      layoutCallback secure s = (Inl (UserAssertion (Some u)), s)) \<and>
   (this_video s1 = Some v1 \<and> hasPlay v1 \<and> Other n \<in> set (getRealChildNodes s1) \<and>
    childSrc n = Some u1 \<and> u1 \<noteq> [] \<and> \<not> secure u1 \<longrightarrow>
      (\<exists>u' s'. \<not> secure u' \<and> layoutCallback secure s1 = (Inl (UserAssertion (Some u')), s'))) \<and>
   (this_video s1 = Some v1 \<and> hasPlay v1 \<and>
    (truthyAttr (attributes s1 ''src'') \<longrightarrow> (\<exists>w. attributes s1 ''src'' = Some w \<and> secure w)) \<and>
    getRealChildNodes s1 = pre @ Other n # post \<and>
    (\<forall>k. Other k \<in> set pre \<longrightarrow> truthyAttr (childSrc k) \<longrightarrow>
         (\<exists>w. childSrc k = Some w \<and> secure w)) \<and>
    childSrc n = Some u1 \<and> u1 \<noteq> [] \<and> \<not> secure u1 \<longrightarrow>
      layoutCallback secure s1 =
        (Inl (UserAssertion (Some u1)),
         s1\<lparr>this_video :=
              Some (v1\<lparr>vattrs := propagateAttributes ATTRS_TO_PROPAGATE_ON_LAYOUT
                                    (attributes s1) True (vattrs v1),
                       vchildren := vchildren v1 @ movedNodes pre\<rparr>),
            childNodes := fold (\<lambda>k. remove1 (Real (Other k))) (movedNodes pre)
                            (childNodes s1)\<rparr>)) \<and>
   (this_video s2 = Some v2 \<and> mutated m ''src'' \<and> attributes s2 ''src'' = Some u2 \<and>
    \<not> secure u2 \<longrightarrow>
      mutatedAttributesCallback secure m s2 = (Inl (UserAssertion (Some u2)), s2))"
proof (intro conjI impI)
  assume "getVideoSource s0 = Some u0 \<and> u0 \<noteq> [] \<and> \<not> secure u0"
  then show "preconnectCallback secure onLayout s0 = (Inl (UserAssertion (Some u0)), s0)"
    by (simp add: preconnectCallback_def truthyAttr_def assertHttpsUrl_def)
next
  assume "this_video s = Some v \<and> hasPlay v \<and> attributes s ''src'' = Some u \<and> u \<noteq> [] \<and> \<not> secure u"
  then show "layoutCallback secure s = (Inl (UserAssertion (Some u)), s)"
    by (simp add: layoutCallback_def isVideoSupported_def truthyAttr_def assertHttpsUrl_def)
next
  assume a: "this_video s1 = Some v1 \<and> hasPlay v1 \<and> Other n \<in> set (getRealChildNodes s1) \<and>
    childSrc n = Some u1 \<and> u1 \<noteq> [] \<and> \<not> secure u1"
  let ?p = "propagateToVideo ATTRS_TO_PROPAGATE_ON_LAYOUT s1"
  from a have vp: "this_video ?p \<noteq> None" and cp: "Other n \<in> set (getRealChildNodes ?p)"
    by (simp_all add: propagateToVideo_def getRealChildNodes_def)
  from a have n: "childSrc n = Some u1" "u1 \<noteq> []" "\<not> secure u1" by simp_all
  from forEachChild_insecure [where secure = secure, OF vp cp n] obtain u' s' where
    f: "\<not> secure u'"
       "forEachChild secure (getRealChildNodes ?p) ?p = (Inl (UserAssertion (Some u')), s')"
    by blast
  show "\<exists>u' s'. \<not> secure u' \<and> layoutCallback secure s1 = (Inl (UserAssertion (Some u')), s')"
  proof (cases "truthyAttr (attributes s1 ''src'') \<and>
                (\<exists>w. attributes s1 ''src'' = Some w \<and> \<not> secure w)")
    case True
    with a show ?thesis
      by (auto simp: layoutCallback_def isVideoSupported_def assertHttpsUrl_def)
  next
    case False
    then have "\<exists>x. (if truthyAttr (attributes s1 ''src'')
                 then assertHttpsUrl secure (attributes s1 ''src'') else Inr []) = Inr x"
      by (auto simp: assertHttpsUrl_def truthyAttr_def split: option.splits)
    with a f show ?thesis
      by (auto simp: layoutCallback_def isVideoSupported_def Let_def)
  qed
next
  assume a: "this_video s1 = Some v1 \<and> hasPlay v1 \<and>
    (truthyAttr (attributes s1 ''src'') \<longrightarrow> (\<exists>w. attributes s1 ''src'' = Some w \<and> secure w)) \<and>
    getRealChildNodes s1 = pre @ Other n # post \<and>
    (\<forall>k. Other k \<in> set pre \<longrightarrow> truthyAttr (childSrc k) \<longrightarrow>
         (\<exists>w. childSrc k = Some w \<and> secure w)) \<and>
    childSrc n = Some u1 \<and> u1 \<noteq> [] \<and> \<not> secure u1"
  let ?p = "propagateToVideo ATTRS_TO_PROPAGATE_ON_LAYOUT s1"
  let ?vp = "v1\<lparr>vattrs := propagateAttributes ATTRS_TO_PROPAGATE_ON_LAYOUT
                             (attributes s1) True (vattrs v1)\<rparr>"
  from a have vp: "this_video ?p = Some ?vp"
    and cp: "getRealChildNodes ?p = pre @ Other n # post"
    by (simp_all add: propagateToVideo_def getRealChildNodes_def)
  from a have pre: "\<forall>k. Other k \<in> set pre \<longrightarrow> truthyAttr (childSrc k) \<longrightarrow>
                        (\<exists>w. childSrc k = Some w \<and> secure w)"
    and n: "childSrc n = Some u1" "u1 \<noteq> []" "\<not> secure u1" by simp_all
  have f: "forEachChild secure (getRealChildNodes ?p) ?p =
        (Inl (UserAssertion (Some u1)),
         ?p\<lparr>this_video := Some (?vp\<lparr>vchildren := vchildren ?vp @ movedNodes pre\<rparr>),
            childNodes := fold (\<lambda>k. remove1 (Real (Other k))) (movedNodes pre)
                            (childNodes ?p)\<rparr>)"
    unfolding cp using vp pre n by (rule forEachChild_first_insecure)
  from a have "\<exists>x. (if truthyAttr (attributes s1 ''src'')
                 then assertHttpsUrl secure (attributes s1 ''src'') else Inr []) = Inr x"
    by (auto simp: assertHttpsUrl_def)
  then obtain x where x: "(if truthyAttr (attributes s1 ''src'')
                 then assertHttpsUrl secure (attributes s1 ''src'') else Inr []) = Inr x" ..
  from a have l: "layoutCallback secure s1 =
        (Inl (UserAssertion (Some u1)),
         ?p\<lparr>this_video := Some (?vp\<lparr>vchildren := vchildren ?vp @ movedNodes pre\<rparr>),
            childNodes := fold (\<lambda>k. remove1 (Real (Other k))) (movedNodes pre)
                            (childNodes ?p)\<rparr>)"
    by (simp add: layoutCallback_def isVideoSupported_def Let_def x f)
  from a show "layoutCallback secure s1 =
        (Inl (UserAssertion (Some u1)),
         s1\<lparr>this_video :=
              Some (v1\<lparr>vattrs := propagateAttributes ATTRS_TO_PROPAGATE_ON_LAYOUT
                                    (attributes s1) True (vattrs v1),
                       vchildren := vchildren v1 @ movedNodes pre\<rparr>),
            childNodes := fold (\<lambda>k. remove1 (Real (Other k))) (movedNodes pre)
                            (childNodes s1)\<rparr>)"
    unfolding l by (simp add: propagateToVideo_def)
next
  assume "this_video s2 = Some v2 \<and> mutated m ''src'' \<and> attributes s2 ''src'' = Some u2 \<and>
    \<not> secure u2"
  then show "mutatedAttributesCallback secure m s2 = (Inl (UserAssertion (Some u2)), s2)"
    by (simp add: mutatedAttributesCallback_def assertHttpsUrl_def)
qed

theorem insecure_source_asserts_witness:
  "getVideoSource exNested = Some exInsecureUrl \<and>
   exInsecureUrl \<noteq> [] \<and> \<not> httpsOnly exInsecureUrl \<and>
   preconnectCallback httpsOnly None exNested =
     (Inl (UserAssertion (Some exInsecureUrl)), exNested) \<and>
   map_option hasPlay (this_video (built (exInsecure True))) = Some True \<and>
   attributes (built (exInsecure True)) ''src'' = Some exInsecureUrl \<and>
   layoutCallback httpsOnly (built (exInsecure True)) =
     (Inl (UserAssertion (Some exInsecureUrl)), built (exInsecure True)) \<and>
   map_option hasPlay (this_video (built exMixed)) = Some True \<and>
   attributes (built exMixed) ''src'' = Some ''https://cdn.example/a.mp4'' \<and>
   getRealChildNodes (built exMixed) =
     [Other exSource1] @ Other exTrack2 # [Other exTrack3, TheVideo] \<and>
   childSrc exSource1 = Some ''https://cdn.example/1.webm'' \<and>
   childSrc exTrack2 = Some exInsecureTrack \<and> \<not> httpsOnly exInsecureTrack \<and>
   fst (layoutCallback httpsOnly (built exMixed)) = Inl (UserAssertion (Some exInsecureTrack)) \<and>
   nativeAttr (snd (layoutCallback httpsOnly (built exMixed))) ''src'' =
     Some (Some ''https://cdn.example/a.mp4'') \<and>
   nativeAttr (snd (layoutCallback httpsOnly (built exMixed))) ''loop'' = Some (Some []) \<and>
   nativeAttr (snd (layoutCallback httpsOnly (built exMixed))) ''preload'' = Some None \<and>
   map_option vchildren (this_video (snd (layoutCallback httpsOnly (built exMixed)))) =
     Some [exSource1] \<and>
   getRealChildNodes (snd (layoutCallback httpsOnly (built exMixed))) =
     [Other exTrack2, Other exTrack3, TheVideo] \<and>
   mutated [''src'' \<mapsto> JStr exInsecureUrl] ''src'' \<and>
   mutatedAttributesCallback httpsOnly [''src'' \<mapsto> JStr exInsecureUrl]
     (built (exInsecure True)) =
     (Inl (UserAssertion (Some exInsecureUrl)), built (exInsecure True))"
proof -
  let ?i = "built (exInsecure True)"
  let ?x = "built exMixed"
  let ?vx = "the (this_video ?x)"
  have hi: "this_video ?i = Some (the (this_video ?i))" "hasPlay (the (this_video ?i))"
    using built_fields(5,8) [of "exInsecure True"] by (auto simp: ex_fields split: option.splits)
  have hx: "this_video ?x = Some ?vx" "hasPlay ?vx" "vchildren ?vx = []"
    using built_fields(5,8,10) [of exMixed] by (auto simp: exMixed_fields split: option.splits)
  have ax: "attributes ?x = [''src'' \<mapsto> ''https://cdn.example/a.mp4'', ''loop'' \<mapsto> []]"
    by (simp add: built_fields(1) exMixed_fields)
  have cx: "childNodes ?x =
      [Service (Element ''div'' [''fallback'' \<mapsto> []] [TextNode ''no video'']),
       Real (Other exSource1), Real (Other exTrack2), Real (Other exTrack3), Real TheVideo]"
    by (simp add: built_fields(9) exMixed_fields)
  have rx: "getRealChildNodes ?x = [Other exSource1] @ Other exTrack2 # [Other exTrack3, TheVideo]"
    by (simp add: getRealChildNodes_def cx)
  have sx: "truthyAttr (attributes ?x ''src'') \<longrightarrow>
            (\<exists>w. attributes ?x ''src'' = Some w \<and> httpsOnly w)"
    by (simp add: ax httpsOnly_def)
  have px: "\<forall>k. Other k \<in> set [Other exSource1] \<longrightarrow> truthyAttr (childSrc k) \<longrightarrow>
                 (\<exists>w. childSrc k = Some w \<and> httpsOnly w)"
    by (simp add: ex_children httpsOnly_def)
  note inst = insecure_source_asserts
      [where ?s0.0 = exNested and ?u0.0 = exInsecureUrl and secure = httpsOnly
         and onLayout = None
         and s = ?i and v = "the (this_video ?i)" and u = exInsecureUrl
         and ?s1.0 = ?x and ?v1.0 = ?vx and n = exTrack2 and ?u1.0 = exInsecureTrack
         and pre = "[Other exSource1]" and post = "[Other exTrack3, TheVideo]"
         and ?s2.0 = ?i and ?v2.0 = "the (this_video ?i)"
         and m = "[''src'' \<mapsto> JStr exInsecureUrl]" and ?u2.0 = exInsecureUrl]
  from inst exNested_source ex_urls
  have c1: "preconnectCallback httpsOnly None exNested =
            (Inl (UserAssertion (Some exInsecureUrl)), exNested)" by simp
  have ai: "attributes ?i ''src'' = Some exInsecureUrl"
    by (simp add: built_fields(1) ex_fields)
  from inst hi ai ex_urls
  have c2: "layoutCallback httpsOnly ?i = (Inl (UserAssertion (Some exInsecureUrl)), ?i)"
    by simp
  have mi: "mutated [''src'' \<mapsto> JStr exInsecureUrl] ''src''"
    by (simp add: mutated_def ex_urls)
  from inst hi ai ex_urls mi
  have c5: "mutatedAttributesCallback httpsOnly [''src'' \<mapsto> JStr exInsecureUrl] ?i =
            (Inl (UserAssertion (Some exInsecureUrl)), ?i)"
    by simp
  from inst hx(1,2) sx rx px ex_children
  have c4: "layoutCallback httpsOnly ?x =
        (Inl (UserAssertion (Some exInsecureTrack)),
         ?x\<lparr>this_video :=
              Some (?vx\<lparr>vattrs := propagateAttributes ATTRS_TO_PROPAGATE_ON_LAYOUT
                                    (attributes ?x) True (vattrs ?vx),
                       vchildren := vchildren ?vx @ movedNodes [Other exSource1]\<rparr>),
            childNodes := fold (\<lambda>k. remove1 (Real (Other k))) (movedNodes [Other exSource1])
                            (childNodes ?x)\<rparr>)"
    by blast
  have n1: "nativeAttr (snd (layoutCallback httpsOnly ?x)) ''src'' =
            Some (Some ''https://cdn.example/a.mp4'')"
    and n2: "nativeAttr (snd (layoutCallback httpsOnly ?x)) ''loop'' = Some (Some [])"
    and n3: "nativeAttr (snd (layoutCallback httpsOnly ?x)) ''preload'' = Some None"
    by (simp_all add: c4 nativeAttr_def propagateAttributes_apply ax
          ATTRS_TO_PROPAGATE_ON_LAYOUT_def)
  have n4: "map_option vchildren (this_video (snd (layoutCallback httpsOnly ?x))) =
            Some [exSource1]"
    by (simp add: c4 hx(3))
  have n5: "getRealChildNodes (snd (layoutCallback httpsOnly ?x)) =
            [Other exTrack2, Other exTrack3, TheVideo]"
    by (simp add: c4 getRealChildNodes_def cx)
  have n6: "fst (layoutCallback httpsOnly ?x) = Inl (UserAssertion (Some exInsecureTrack))"
    by (simp add: c4)
  from built_fields(5) [of "exInsecure True"] built_fields(5) [of exMixed]
  have hp: "map_option hasPlay (this_video ?i) = Some True"
           "map_option hasPlay (this_video ?x) = Some True"
    by (simp_all add: ex_fields exMixed_fields)
  from exNested_source ex_urls c1 hp ai c2 ax rx ex_children n6 n1 n2 n3 n4 n5 mi c5
  show ?thesis by simp
qed

text \<open>
  C1 as stated fails twice. On a platform whose video element cannot play,
  \<^verbatim>\<open>layoutCallback\<close> of an element with an http \<^verbatim>\<open>src\<close> shows the fallback and returns
  a resolved promise; before \<^verbatim>\<open>buildCallback\<close>, \<^verbatim>\<open>mutatedAttributesCallback\<close> with
  an http \<^verbatim>\<open>src\<close> among the mutations returns without a failure.
\<close>

theorem insecure_source_unasserted:
  "attributes (built (exInsecure False)) ''src'' = Some exInsecureUrl \<and>
   \<not> httpsOnly exInsecureUrl \<and>
   fst (layoutCallback httpsOnly (built (exInsecure False))) = Inr Resolved \<and>
   mutated [''src'' \<mapsto> JStr exInsecureUrl] ''src'' \<and>
   attributes (exInsecure True) ''src'' = Some exInsecureUrl \<and>
   fst (mutatedAttributesCallback httpsOnly [''src'' \<mapsto> JStr exInsecureUrl]
          (exInsecure True)) = Inr ()"
  using built_fields(5,8) [of "exInsecure False"]
  by (auto simp: ex_fields built_fields(1) ex_urls layoutCallback_def
        isVideoSupported_def mutatedAttributesCallback_def mutated_def
        split: option.splits)

text \<open>
  C2. When the native video has no \<^verbatim>\<open>play\<close>, \<^verbatim>\<open>layoutCallback\<close> returns a resolved
  promise and the only change to the component is the fallback toggled on: no attribute
  is propagated, no child is moved, no event is dispatched, nothing is thrown.
\<close>

theorem layout_unsupported_fallback:
  "this_video s = Some v \<Longrightarrow> \<not> hasPlay v \<Longrightarrow>
     layoutCallback secure s = (Inr Resolved, s\<lparr>fallbackOn := True\<rparr>)"
  by (simp add: layoutCallback_def isVideoSupported_def toggleFallback_def)

theorem layout_unsupported_fallback_witness:
  "map_option hasPlay (this_video (built (exInsecure False))) = Some False \<and>
   layoutCallback httpsOnly (built (exInsecure False)) =
     (Inr Resolved, (built (exInsecure False))\<lparr>fallbackOn := True\<rparr>)"
  using layout_unsupported_fallback
          [of "built (exInsecure False)" "the (this_video (built (exInsecure False)))" httpsOnly]
    built_fields(5,8) [of "exInsecure False"]
  by (auto simp: ex_fields)

text \<open>
  C3, as the code has it. After \<^verbatim>\<open>buildCallback\<close>, \<^verbatim>\<open>getMetadata\<close> returns the title,
  artist and album attributes (the empty string for an absent one) and one artwork entry
  whose \<^verbatim>\<open>src\<close> is the artwork attribute, or the poster attribute when artwork is absent
  or empty, or the empty string. A \<^verbatim>\<open>mutatedAttributesCallback\<close> that completes on a
  built component re-derives, by the same rules, exactly the fields for which a source
  attribute has a truthy value in the mutations; every other field keeps its value.
\<close>

theorem metadata_from_attributes:
  "getMetadata (snd (buildCallback s0)) =
     \<lparr>title = attrOrEmpty (attributes s0) ''title'',
      artist = attrOrEmpty (attributes s0) ''artist'',
      album = attrOrEmpty (attributes s0) ''album'',
      artwork = [Artwork (if attrOrEmpty (attributes s0) ''artwork'' \<noteq> []
                          then attrOrEmpty (attributes s0) ''artwork''
                          else attrOrEmpty (attributes s0) ''poster'')]\<rparr> \<and>
   (this_video s = Some v \<and> mutatedAttributesCallback secure m s = (Inr (), s') \<longrightarrow>
    getMetadata s' =
     \<lparr>title = (if mutated m ''title'' then attrOrEmpty (attributes s) ''title''
               else title (getMetadata s)),
      artist = (if mutated m ''artist'' then attrOrEmpty (attributes s) ''artist''
                else artist (getMetadata s)),
      album = (if mutated m ''album'' then attrOrEmpty (attributes s) ''album''
               else album (getMetadata s)),
      artwork = (if mutated m ''artwork'' \<or> mutated m ''poster''
                 then [Artwork (if attrOrEmpty (attributes s) ''artwork'' \<noteq> []
                                then attrOrEmpty (attributes s) ''artwork''
                                else attrOrEmpty (attributes s) ''poster'')]
                 else artwork (getMetadata s))\<rparr>)"
proof (intro conjI impI)
  show "getMetadata (snd (buildCallback s0)) =
     \<lparr>title = attrOrEmpty (attributes s0) ''title'',
      artist = attrOrEmpty (attributes s0) ''artist'',
      album = attrOrEmpty (attributes s0) ''album'',
      artwork = [Artwork (if attrOrEmpty (attributes s0) ''artwork'' \<noteq> []
                          then attrOrEmpty (attributes s0) ''artwork''
                          else attrOrEmpty (attributes s0) ''poster'')]\<rparr>"
    unfolding getMetadata_def by (rule buildCallback_metadata)
next
  assume a: "this_video s = Some v \<and> mutatedAttributesCallback secure m s = (Inr (), s')"
  then have v: "this_video s = Some v"
    and l: "mutatedAttributesCallback secure m s = (Inr (), s')" by simp_all
  from mutated_state [OF v l]
  have "this_metadata s' = rederiveMetadata m (attributes s) (this_metadata s)" by simp
  then show "getMetadata s' =
     \<lparr>title = (if mutated m ''title'' then attrOrEmpty (attributes s) ''title''
               else title (getMetadata s)),
      artist = (if mutated m ''artist'' then attrOrEmpty (attributes s) ''artist''
                else artist (getMetadata s)),
      album = (if mutated m ''album'' then attrOrEmpty (attributes s) ''album''
               else album (getMetadata s)),
      artwork = (if mutated m ''artwork'' \<or> mutated m ''poster''
                 then [Artwork (if attrOrEmpty (attributes s) ''artwork'' \<noteq> []
                                then attrOrEmpty (attributes s) ''artwork''
                                else attrOrEmpty (attributes s) ''poster'')]
                 else artwork (getMetadata s))\<rparr>"
    by (simp add: getMetadata_def rederiveMetadata_eq)
qed

theorem metadata_from_attributes_witness:
  "getMetadata (snd (buildCallback exSecure)) =
     \<lparr>title = ''Old'', artist = [], album = [],
      artwork = [Artwork ''https://cdn.example/p.png'']\<rparr> \<and>
   this_video exRetitled = Some (the (this_video (built exSecure))) \<and>
   mutatedAttributesCallback httpsOnly [''title'' \<mapsto> JStr ''New''] exRetitled =
     (Inr (), snd (mutatedAttributesCallback httpsOnly [''title'' \<mapsto> JStr ''New''] exRetitled)) \<and>
   getMetadata (snd (mutatedAttributesCallback httpsOnly [''title'' \<mapsto> JStr ''New''] exRetitled)) =
     \<lparr>title = ''New'', artist = [], album = [],
      artwork = [Artwork ''https://cdn.example/p.png'']\<rparr>"
proof -
  let ?m = "[''title'' \<mapsto> JStr ''New'']"
  have r: "mutatedAttributesCallback httpsOnly ?m exRetitled =
           (Inr (), snd (mutatedAttributesCallback httpsOnly ?m exRetitled))"
    using mutated_result [OF ex_edited_video(1), of httpsOnly ?m]
    by (simp add: prod_eq_iff mutated_def)
  have md: "getMetadata exRetitled = getMetadata (built exSecure)"
    by (simp add: getMetadata_def exRetitled_def host_edit_fields)
  have at: "attributes exRetitled = (attributes exSecure)(''title'' \<mapsto> ''New'')"
    by (simp add: exRetitled_def host_edit_fields built_fields)
  from metadata_from_attributes
         [of exSecure exRetitled "the (this_video (built exSecure))" httpsOnly ?m
             "snd (mutatedAttributesCallback httpsOnly ?m exRetitled)"]
       r ex_edited_video(1)
  show ?thesis
    by (simp add: md at exSecure_metadata ex_fields attrOrEmpty_def mutated_def)
qed

text \<open>
  C3 as stated fails when an attribute is removed: the host reports the removal as a
  \<^verbatim>\<open>null\<close> mutation, the title attribute is gone from the element, and the metadata
  still carries the old title.
\<close>

theorem metadata_removed_attribute_kept:
  "[''title'' \<mapsto> JNull] ''title'' \<noteq> None \<and>
   attrOrEmpty (attributes exUntitled) ''title'' = [] \<and>
   fst (mutatedAttributesCallback httpsOnly [''title'' \<mapsto> JNull] exUntitled) = Inr () \<and>
   title (getMetadata (snd (mutatedAttributesCallback httpsOnly [''title'' \<mapsto> JNull]
                              exUntitled))) = ''Old''"
proof -
  let ?m = "[''title'' \<mapsto> JNull]"
  have r: "fst (mutatedAttributesCallback httpsOnly ?m exUntitled) = Inr ()"
    using mutated_result [OF ex_edited_video(2), of httpsOnly ?m] by (simp add: mutated_def)
  have md: "this_metadata exUntitled = getMetadata (built exSecure)"
    by (simp add: getMetadata_def exUntitled_def host_edit_fields)
  from r have l: "mutatedAttributesCallback httpsOnly ?m exUntitled =
                  (Inr (), snd (mutatedAttributesCallback httpsOnly ?m exUntitled))"
    by (simp add: prod_eq_iff)
  from mutated_state [OF ex_edited_video(2) l]
  have "this_metadata (snd (mutatedAttributesCallback httpsOnly ?m exUntitled)) =
        rederiveMetadata ?m (attributes exUntitled) (this_metadata exUntitled)"
    by simp
  then have "title (getMetadata (snd (mutatedAttributesCallback httpsOnly ?m exUntitled))) = ''Old''"
    by (simp add: getMetadata_def rederiveMetadata_eq md
                  exSecure_metadata [unfolded getMetadata_def] mutated_def)
  with r show ?thesis
    by (simp add: exUntitled_def host_edit_fields attrOrEmpty_def)
qed

text \<open>
  C4. The whitelist is the build-time list followed by the layout-time list. After
  \<^verbatim>\<open>buildCallback\<close> the native video carries the element's value of every build-time
  attribute and, of the others, only what the callback itself sets. A \<^verbatim>\<open>layoutCallback\<close>
  that lays out copies exactly the layout-time attributes, a
  \<^verbatim>\<open>mutatedAttributesCallback\<close> that completes copies exactly the whitelisted attributes
  that are keys of the mutations (an attribute the element lacks is removed), and no call
  of either, completed or not, changes an attribute outside the whitelist.
\<close>

theorem propagation_whitelist:
  "ATTRS_TO_PROPAGATE =
     [''aria-describedby'', ''aria-label'', ''aria-labelledby'', ''controls'',
      ''crossorigin'', ''poster'', ''controlsList'', ''src'', ''loop'', ''preload''] \<and>
   nativeAttr (snd (buildCallback s0)) a =
     Some (if a \<in> set ATTRS_TO_PROPAGATE_ON_BUILD then attributes s0 a
           else [''playsinline'' \<mapsto> [], ''webkit-playsinline'' \<mapsto> [], ''preload'' \<mapsto> ''none''] a) \<and>
   (this_video s1 = Some v1 \<and> hasPlay v1 \<and> layoutCallback secure s1 = (Inr p, s1') \<longrightarrow>
      nativeAttr s1' a =
        Some (if a \<in> set ATTRS_TO_PROPAGATE_ON_LAYOUT then attributes s1 a else vattrs v1 a)) \<and>
   (this_video s2 = Some v2 \<and> mutatedAttributesCallback secure m s2 = (Inr (), s2') \<longrightarrow>
      nativeAttr s2' a =
        Some (if a \<in> set ATTRS_TO_PROPAGATE \<and> m a \<noteq> None then attributes s2 a
              else vattrs v2 a)) \<and>
   (b \<notin> set ATTRS_TO_PROPAGATE \<longrightarrow>
      nativeAttr (snd (layoutCallback secure s1)) b = nativeAttr s1 b \<and>
      nativeAttr (snd (mutatedAttributesCallback secure m s2)) b = nativeAttr s2 b)"
proof (intro conjI impI)
  show "ATTRS_TO_PROPAGATE =
     [''aria-describedby'', ''aria-label'', ''aria-labelledby'', ''controls'',
      ''crossorigin'', ''poster'', ''controlsList'', ''src'', ''loop'', ''preload'']"
    by (simp add: ATTRS_TO_PROPAGATE_def ATTRS_TO_PROPAGATE_ON_BUILD_def
                  ATTRS_TO_PROPAGATE_ON_LAYOUT_def)
next
  show "nativeAttr (snd (buildCallback s0)) a =
     Some (if a \<in> set ATTRS_TO_PROPAGATE_ON_BUILD then attributes s0 a
           else [''playsinline'' \<mapsto> [], ''webkit-playsinline'' \<mapsto> [], ''preload'' \<mapsto> ''none''] a)"
    by (rule buildCallback_nativeAttr)
next
  assume "this_video s1 = Some v1 \<and> hasPlay v1 \<and> layoutCallback secure s1 = (Inr p, s1')"
  then have v: "this_video s1 = Some v1" and h: "hasPlay v1"
    and l: "layoutCallback secure s1 = (Inr p, s1')" by simp_all
  from layoutCallback_ok_state [OF v h l]
  show "nativeAttr s1' a =
        Some (if a \<in> set ATTRS_TO_PROPAGATE_ON_LAYOUT then attributes s1 a else vattrs v1 a)"
    by (auto simp: nativeAttr_def propagateAttributes_apply)
next
  assume "this_video s2 = Some v2 \<and> mutatedAttributesCallback secure m s2 = (Inr (), s2')"
  then have v: "this_video s2 = Some v2"
    and l: "mutatedAttributesCallback secure m s2 = (Inr (), s2')" by simp_all
  from mutated_state [OF v l]
  show "nativeAttr s2' a =
        Some (if a \<in> set ATTRS_TO_PROPAGATE \<and> m a \<noteq> None then attributes s2 a
              else vattrs v2 a)"
    by (auto simp: nativeAttr_def propagateAttributes_apply)
next
  assume "b \<notin> set ATTRS_TO_PROPAGATE"
  then have "b \<notin> set ATTRS_TO_PROPAGATE_ON_LAYOUT" by (simp add: ATTRS_TO_PROPAGATE_def)
  then show "nativeAttr (snd (layoutCallback secure s1)) b = nativeAttr s1 b"
    by (rule layoutCallback_outside)
next
  assume b: "b \<notin> set ATTRS_TO_PROPAGATE"
  show "nativeAttr (snd (mutatedAttributesCallback secure m s2)) b = nativeAttr s2 b"
    by (rule mutated_outside) (simp add: b)
qed

theorem propagation_whitelist_witness:
  "nativeAttr (snd (buildCallback exSecure)) ''src'' = Some None \<and>
   map_option hasPlay (this_video (built exSecure)) = Some True \<and>
   layoutCallback httpsOnly (built exSecure) = (Inr (AwaitLoad LOAD), snd exLaidOut) \<and>
   nativeAttr (snd exLaidOut) ''src'' = Some (Some ''https://cdn.example/a.mp4'') \<and>
   this_video exResourced = Some (the (this_video (built exSecure))) \<and>
   mutatedAttributesCallback httpsOnly
       [''src'' \<mapsto> JStr exSecureUrl, ''autoplay'' \<mapsto> JBool True] exResourced =
     (Inr (), snd (mutatedAttributesCallback httpsOnly
                     [''src'' \<mapsto> JStr exSecureUrl, ''autoplay'' \<mapsto> JBool True] exResourced)) \<and>
   nativeAttr (snd (mutatedAttributesCallback httpsOnly
                     [''src'' \<mapsto> JStr exSecureUrl, ''autoplay'' \<mapsto> JBool True] exResourced))
     ''src'' = Some (Some exSecureUrl) \<and>
   ''autoplay'' \<notin> set ATTRS_TO_PROPAGATE \<and>
   attributes exResourced ''autoplay'' = Some [] \<and>
   nativeAttr (snd (layoutCallback httpsOnly (built exSecure))) ''autoplay'' = Some None \<and>
   nativeAttr (snd (mutatedAttributesCallback httpsOnly
                     [''src'' \<mapsto> JStr exSecureUrl, ''autoplay'' \<mapsto> JBool True] exResourced))
     ''autoplay'' = Some None"
proof -
  let ?m = "[''src'' \<mapsto> JStr exSecureUrl, ''autoplay'' \<mapsto> JBool True]"
  have at: "attributes exResourced = (attributes exSecure)(''src'' \<mapsto> exSecureUrl)"
    by (simp add: exResourced_def host_edit_fields built_fields)
  have r: "mutatedAttributesCallback httpsOnly ?m exResourced =
           (Inr (), snd (mutatedAttributesCallback httpsOnly ?m exResourced))"
    using mutated_result [OF ex_edited_video(3), of httpsOnly ?m]
    by (simp add: prod_eq_iff at ex_urls)
  have h: "hasPlay (the (this_video (built exSecure)))"
    using built_fields(5,8) [of exSecure] by (auto simp: ex_fields split: option.splits)
  have n0: "nativeAttr (built exSecure) ''autoplay'' = Some None"
    by (simp add: built_def buildCallback_nativeAttr autoplay_not_propagated)
  have n1: "nativeAttr exResourced ''autoplay'' = Some None"
    using n0 by (simp add: nativeAttr_def exResourced_def host_edit_fields)
  from propagation_whitelist
         [of exSecure "''src''" "built exSecure" "the (this_video (built exSecure))" httpsOnly
             "AwaitLoad LOAD" "snd exLaidOut" exResourced "the (this_video (built exSecure))"
             ?m "snd (mutatedAttributesCallback httpsOnly ?m exResourced)" "''autoplay''"]
       r h exLaidOut_eq built_fields(5,8) [of exSecure] ex_edited_video(3)
  show ?thesis
    by (simp add: src_propagated autoplay_not_propagated n0 n1 at built_fields(1) ex_fields)
qed

text \<open>
  C5. When the native \<^verbatim>\<open>play()\<close> returns a promise, rejecting or not, \<^verbatim>\<open>play\<close>
  returns normally (it returns nothing, so no promise reaches the caller) and the
  promise has a rejection handler attached: no unhandled rejection is added.
\<close>

theorem play_rejection_swallowed:
  "this_video s = Some v \<Longrightarrow> hasPlay v \<Longrightarrow>
   play (ReturnsPromise rejected) unusedIsAutoplay s = (r, s') \<Longrightarrow>
     r = Inr () \<and> unhandledRejections s' = unhandledRejections s"
  by (auto simp: play_def unhandledRejections_def Let_def)

theorem play_rejection_swallowed_witness:
  "map_option hasPlay (this_video (built exSecure)) = Some True \<and>
   fst (play (ReturnsPromise True) False (built exSecure)) = Inr () \<and>
   unhandledRejections (snd (play (ReturnsPromise True) False (built exSecure))) = []"
  using play_rejection_swallowed
          [of "built exSecure" "the (this_video (built exSecure))" True False
              "fst (play (ReturnsPromise True) False (built exSecure))"
              "snd (play (ReturnsPromise True) False (built exSecure))"]
    built_fields(5,7,8) [of exSecure]
  by (auto simp: ex_fields unhandledRejections_def split: option.splits)

text \<open>
  C6. A \<^verbatim>\<open>layoutCallback\<close> on a video that can play dispatches no event itself,
  whatever its outcome. When it returns a promise, that promise is the one that waits for
  the video's ready signal: it is not yet resolved, and the signal dispatches LOAD and
  only then resolves it.
\<close>

theorem load_after_ready:
  assumes "this_video s = Some v" and "hasPlay v"
    and "layoutCallback secure s = (r, s')"
  shows "dispatched s' = dispatched s \<and>
         (\<forall>p. r = Inr p \<longrightarrow>
            p = AwaitLoad LOAD \<and> p \<noteq> Resolved \<and>
            loadSignal p s' = (Resolved, s'\<lparr>dispatched := dispatched s @ [LOAD]\<rparr>))"
proof (intro conjI allI impI)
  show d: "dispatched s' = dispatched s"
    using assms(3) by (rule layoutCallback_dispatched)
  fix p
  assume "r = Inr p"
  with assms(3) have l: "layoutCallback secure s = (Inr p, s')" by simp
  from layoutCallback_ok_state [OF assms(1,2) l] have p: "p = AwaitLoad LOAD" by simp
  then show "p = AwaitLoad LOAD" .
  from p show "p \<noteq> Resolved" by simp
  from p d show "loadSignal p s' = (Resolved, s'\<lparr>dispatched := dispatched s @ [LOAD]\<rparr>)"
    by (simp add: loadSignal_def dispatchCustomEvent_def)
qed

theorem load_after_ready_witness:
  "map_option hasPlay (this_video (built exSecure)) = Some True \<and>
   layoutCallback httpsOnly (built exSecure) = (Inr (AwaitLoad LOAD), snd exLaidOut) \<and>
   dispatched (snd exLaidOut) = [] \<and>
   loadSignal (AwaitLoad LOAD) (snd exLaidOut) =
     (Resolved, (snd exLaidOut)\<lparr>dispatched := [LOAD]\<rparr>)"
  using load_after_ready
          [of "built exSecure" "the (this_video (built exSecure))" httpsOnly
              "Inr (AwaitLoad LOAD)" "snd exLaidOut"]
    built_fields(5,8) [of exSecure] exLaidOut_eq
  by (auto simp: ex_fields built_fields(3))

text \<open>
  C7. After the volumechange handler has run, \<open>this_muted\<close> equals the video's muted
  flag; the handler dispatches MUTED when the flag differed from the stored value and is
  now true, UNMUTED when it differed and is now false, and nothing when it did not
  differ.
\<close>

theorem volumechange_mirrors_muted:
  "this_video s = Some v \<Longrightarrow> volumechangeHandler s = (r, s') \<Longrightarrow>
     r = Inr () \<and> this_muted s' = muted v \<and> this_video s' = Some v \<and>
     dispatched s' = dispatched s @
       (if this_muted s = muted v then [] else if muted v then [MUTED] else [UNMUTED])"
  by (auto simp: volumechangeHandler_def dispatchCustomEvent_def Let_def split: if_splits)

theorem volumechange_mirrors_muted_witness:
  "map_option muted (this_video exMuted) = Some True \<and>
   this_muted exMuted = False \<and>
   fst (volumechangeHandler exMuted) = Inr () \<and>
   this_muted (snd (volumechangeHandler exMuted)) = True \<and>
   dispatched (snd (volumechangeHandler exMuted)) = [MUTED]"
  using volumechange_mirrors_muted
          [of exMuted "the (this_video exMuted)"
              "fst (volumechangeHandler exMuted)" "snd (volumechangeHandler exMuted)"]
    built_fields(8) [of exSecure]
  by (auto simp: exMuted_def mute_def built_fields(3,4) ex_fields split: option.splits)

text \<open>
  C8, as the code has it. On a built component \<^verbatim>\<open>mutatedAttributesCallback\<close>
  dispatches RELOAD, once, exactly when the mutation of \<^verbatim>\<open>src\<close> carries a truthy value
  and the call completes (the https assertion on the element's \<^verbatim>\<open>src\<close> passes); it
  dispatches nothing else. \<^verbatim>\<open>viewportCallback\<close> dispatches VISIBILITY with the given
  flag on every call and changes nothing else.
\<close>

theorem reload_and_visibility_events:
  "(this_video s = Some v \<and> mutatedAttributesCallback secure m s = (r, s') \<longrightarrow>
      dispatched s' =
        dispatched s @ (if r = Inr () \<and> mutated m ''src'' then [RELOAD] else [])) \<and>
   viewportCallback visible s =
     (Inr (), s\<lparr>dispatched := dispatched s @ [VISIBILITY visible]\<rparr>)"
proof (intro conjI impI)
  assume "this_video s = Some v \<and> mutatedAttributesCallback secure m s = (r, s')"
  then have v: "this_video s = Some v"
    and l: "mutatedAttributesCallback secure m s = (r, s')" by simp_all
  from mutated_state [OF v l]
  show "dispatched s' =
        dispatched s @ (if r = Inr () \<and> mutated m ''src'' then [RELOAD] else [])"
    by simp
next
  show "viewportCallback visible s =
     (Inr (), s\<lparr>dispatched := dispatched s @ [VISIBILITY visible]\<rparr>)"
    by (simp add: viewportCallback_def dispatchCustomEvent_def)
qed

theorem reload_and_visibility_events_witness:
  "this_video exResourced = Some (the (this_video (built exSecure))) \<and>
   mutated [''src'' \<mapsto> JStr exSecureUrl] ''src'' \<and>
   mutatedAttributesCallback httpsOnly [''src'' \<mapsto> JStr exSecureUrl] exResourced =
     (Inr (), snd (mutatedAttributesCallback httpsOnly [''src'' \<mapsto> JStr exSecureUrl]
                     exResourced)) \<and>
   dispatched (snd (mutatedAttributesCallback httpsOnly [''src'' \<mapsto> JStr exSecureUrl]
                      exResourced)) = [RELOAD] \<and>
   viewportCallback True exResourced = (Inr (), exResourced\<lparr>dispatched := [VISIBILITY True]\<rparr>)"
proof -
  let ?m = "[''src'' \<mapsto> JStr exSecureUrl]"
  have at: "attributes exResourced = (attributes exSecure)(''src'' \<mapsto> exSecureUrl)"
    and d: "dispatched exResourced = []"
    by (simp_all add: exResourced_def host_edit_fields built_fields ex_fields)
  have r: "mutatedAttributesCallback httpsOnly ?m exResourced =
           (Inr (), snd (mutatedAttributesCallback httpsOnly ?m exResourced))"
    using mutated_result [OF ex_edited_video(3), of httpsOnly ?m]
    by (simp add: prod_eq_iff at ex_urls)
  from reload_and_visibility_events
         [of exResourced "the (this_video (built exSecure))" httpsOnly ?m "Inr ()"
             "snd (mutatedAttributesCallback httpsOnly ?m exResourced)" True]
       r ex_edited_video(3)
  show ?thesis by (simp add: d mutated_def ex_urls)
qed

text \<open>
  C8 as stated fails in both directions of its "if and only if" being read on the keys
  of the mutations: with \<^verbatim>\<open>src\<close> removed (a \<^verbatim>\<open>null\<close> mutation) the call completes
  and dispatches nothing, and with \<^verbatim>\<open>src\<close> mutated to an http URL the call throws
  before any dispatch.
\<close>

theorem reload_not_for_every_src_mutation:
  "[''src'' \<mapsto> JNull] ''src'' \<noteq> None \<and>
   dispatched exUnsourced = [] \<and>
   fst (mutatedAttributesCallback httpsOnly [''src'' \<mapsto> JNull] exUnsourced) = Inr () \<and>
   dispatched (snd (mutatedAttributesCallback httpsOnly [''src'' \<mapsto> JNull] exUnsourced)) = [] \<and>
   [''src'' \<mapsto> JStr exInsecureUrl] ''src'' \<noteq> None \<and>
   dispatched (built (exInsecure True)) = [] \<and>
   mutatedAttributesCallback httpsOnly [''src'' \<mapsto> JStr exInsecureUrl]
       (built (exInsecure True)) =
     (Inl (UserAssertion (Some exInsecureUrl)), built (exInsecure True))"
proof -
  let ?m = "[''src'' \<mapsto> JNull]"
  have d: "dispatched exUnsourced = []"
    by (simp add: exUnsourced_def host_edit_fields built_fields ex_fields)
  have r: "fst (mutatedAttributesCallback httpsOnly ?m exUnsourced) = Inr ()"
    using mutated_result [OF ex_edited_video(4), of httpsOnly ?m] by (simp add: mutated_def)
  then have l: "mutatedAttributesCallback httpsOnly ?m exUnsourced =
                (Inr (), snd (mutatedAttributesCallback httpsOnly ?m exUnsourced))"
    by (simp add: prod_eq_iff)
  from mutated_state [OF ex_edited_video(4) l]
  have e: "dispatched (snd (mutatedAttributesCallback httpsOnly ?m exUnsourced)) = []"
    by (simp add: d mutated_def)
  have i: "mutatedAttributesCallback httpsOnly [''src'' \<mapsto> JStr exInsecureUrl]
             (built (exInsecure True)) =
           (Inl (UserAssertion (Some exInsecureUrl)), built (exInsecure True))"
    using built_fields(8) [of "exInsecure True"]
    by (auto simp: mutatedAttributesCallback_def mutated_def assertHttpsUrl_def ex_urls
          built_fields(1) ex_fields split: option.splits)
  from d r e i show ?thesis by (simp add: built_fields(3) ex_fields)
qed

text \<open>
  C9. \<^verbatim>\<open>autoplay\<close> is in neither list. The video that \<^verbatim>\<open>buildCallback\<close> creates has
  no \<^verbatim>\<open>autoplay\<close> attribute whatever the element carries, and neither
  \<^verbatim>\<open>layoutCallback\<close> nor \<^verbatim>\<open>mutatedAttributesCallback\<close>, on any component and
  whatever their outcome, changes the native video's \<^verbatim>\<open>autoplay\<close> attribute.
\<close>

theorem autoplay_never_propagated:
  "''autoplay'' \<notin> set ATTRS_TO_PROPAGATE_ON_BUILD \<and>
   ''autoplay'' \<notin> set ATTRS_TO_PROPAGATE_ON_LAYOUT \<and>
   nativeAttr (snd (buildCallback s0)) ''autoplay'' = Some None \<and>
   nativeAttr (snd (layoutCallback secure s1)) ''autoplay'' = nativeAttr s1 ''autoplay'' \<and>
   nativeAttr (snd (mutatedAttributesCallback secure m s2)) ''autoplay'' =
     nativeAttr s2 ''autoplay''"
proof (intro conjI)
  show "nativeAttr (snd (buildCallback s0)) ''autoplay'' = Some None"
    by (simp add: buildCallback_nativeAttr autoplay_not_propagated)
next
  show "nativeAttr (snd (layoutCallback secure s1)) ''autoplay'' = nativeAttr s1 ''autoplay''"
    by (rule layoutCallback_outside) (rule autoplay_not_propagated)
next
  show "nativeAttr (snd (mutatedAttributesCallback secure m s2)) ''autoplay'' =
        nativeAttr s2 ''autoplay''"
    by (rule mutated_outside) (simp add: autoplay_not_propagated)
qed (rule autoplay_not_propagated)+

theorem autoplay_never_propagated_witness:
  "attributes exSecure ''autoplay'' = Some [] \<and>
   nativeAttr (snd (buildCallback exSecure)) ''autoplay'' = Some None \<and>
   nativeAttr (snd (layoutCallback httpsOnly (built exSecure))) ''autoplay'' = Some None \<and>
   nativeAttr (snd (mutatedAttributesCallback httpsOnly [''autoplay'' \<mapsto> JBool True]
                      (built exSecure))) ''autoplay'' = Some None"
  using autoplay_never_propagated
          [of exSecure httpsOnly "built exSecure" "[''autoplay'' \<mapsto> JBool True]"
              "built exSecure"]
  by (simp add: ex_fields built_def)

text \<open>
  C10. Before \<^verbatim>\<open>buildCallback\<close> (no native video), \<^verbatim>\<open>mutatedAttributesCallback\<close> and
  \<^verbatim>\<open>pauseCallback\<close> return normally and leave the whole component as it was.
\<close>

theorem prebuild_noop:
  "this_video s = None \<Longrightarrow>
     mutatedAttributesCallback secure m s = (Inr (), s) \<and> pauseCallback s = (Inr (), s)"
  by (simp add: mutatedAttributesCallback_def pauseCallback_def)

theorem prebuild_noop_witness:
  "this_video (exInsecure True) = None \<and>
   mutatedAttributesCallback httpsOnly [''src'' \<mapsto> JStr exInsecureUrl] (exInsecure True) =
     (Inr (), exInsecure True) \<and>
   pauseCallback (exInsecure True) = (Inr (), exInsecure True)"
  using prebuild_noop [of "exInsecure True" httpsOnly "[''src'' \<mapsto> JStr exInsecureUrl]"]
  by (simp add: ex_fields)

end
